theory Spec2Isabelle
  imports Main "HOL-Library.Multiset"
begin

section \<open>The identifier pattern of ThreadServices\<close>

text \<open>
  \<^verbatim>\<open>findOne\<close>, \<^verbatim>\<open>updateOne\<close> and \<^verbatim>\<open>deleteOne\<close> each start with
  \<^verbatim>\<open>/^[a-f\d]{8}-[a-f\d]{4}-4[a-f\d]{3}-[89aAbB][a-f\d]{3}-[a-f\d]{12}$/.test(threadId)\<close>.
  The literal is embedded as a term of a small regular-expression syntax (anchors, one
  character, a character class, a counted repetition), and \<^verbatim>\<open>test\<close> as the search for
  a start position from which the terms match in sequence. The literal carries no flag, so
  \<^verbatim>\<open>^\<close> holds at position 0 only, \<^verbatim>\<open>$\<close> at the end of the input only, and
  \<^verbatim>\<open>\d\<close> is the ten ASCII digits. A string is a list of 8-bit characters here; every
  character the pattern admits is ASCII.
\<close>

datatype class_item = Single char | Range char char | Digit

datatype re_atom = Lit char | Class "class_item list"

datatype re_term = Bol | Eol | Once re_atom | Repeat re_atom nat

fun in_item :: "char \<Rightarrow> class_item \<Rightarrow> bool" where
  "in_item c (Single d) = (c = d)"
| "in_item c (Range lo hi) =
     ((of_char lo :: nat) \<le> of_char c \<and> (of_char c :: nat) \<le> of_char hi)"
| "in_item c Digit =
     ((of_char CHR ''0'' :: nat) \<le> of_char c \<and> (of_char c :: nat) \<le> of_char CHR ''9'')"

fun atom_matches :: "re_atom \<Rightarrow> char \<Rightarrow> bool" where
  "atom_matches (Lit d) c = (c = d)"
| "atom_matches (Class items) c = list_ex (in_item c) items"

text \<open>\<open>match_at ts pos s\<close>: the terms \<open>ts\<close> match a prefix of \<open>s\<close>, the rest of the
  input from position \<open>pos\<close> on.\<close>

fun match_at :: "re_term list \<Rightarrow> nat \<Rightarrow> string \<Rightarrow> bool" where
  "match_at [] pos s = True"
| "match_at (Bol # ts) pos s = (pos = 0 \<and> match_at ts pos s)"
| "match_at (Eol # ts) pos s = (s = [] \<and> match_at ts pos s)"
| "match_at (Once a # ts) pos s =
     (case s of [] \<Rightarrow> False | c # cs \<Rightarrow> atom_matches a c \<and> match_at ts (Suc pos) cs)"
| "match_at (Repeat a 0 # ts) pos s = match_at ts pos s"
| "match_at (Repeat a (Suc n) # ts) pos s =
     (case s of [] \<Rightarrow> False
      | c # cs \<Rightarrow> atom_matches a c \<and> match_at (Repeat a n # ts) (Suc pos) cs)"

definition regex_test :: "re_term list \<Rightarrow> string \<Rightarrow> bool" where
  "regex_test p s = list_ex (\<lambda>i. match_at p i (drop i s)) [0 ..< Suc (length s)]"

text \<open>The class \<^verbatim>\<open>[a-f\d]\<close> and the pattern of the three handlers.\<close>

definition hex_lower :: re_atom where
  "hex_lower = Class [Range CHR ''a'' CHR ''f'', Digit]"

definition uuid_regex :: "re_term list" where
  "uuid_regex =
     [Bol, Repeat hex_lower 8, Once (Lit CHR ''-''),
      Repeat hex_lower 4, Once (Lit CHR ''-''),
      Once (Lit CHR ''4''), Repeat hex_lower 3, Once (Lit CHR ''-''),
      Once (Class (map Single ''89aAbB'')), Repeat hex_lower 3, Once (Lit CHR ''-''),
      Repeat hex_lower 12, Eol]"

subsection \<open>The shape the specification describes\<close>

text \<open>
  The specification's words: five groups of 8, 4, 4, 4 and 12 lowercase hexadecimal
  digits separated by hyphens, the first digit of the third group (the version nibble)
  being 4 and the first digit of the fourth group (the variant nibble) one of a given
  list. \<open>spec_uuid_v4\<close> is the specification's identifier: variant nibble in
  \<open>{8, 9, a, b}\<close>, every hexadecimal digit lowercase.
\<close>

definition lower_hex_digit :: "char \<Rightarrow> bool" where
  "lower_hex_digit c = (c \<in> set ''0123456789abcdef'')"

definition uuid_shape :: "string \<Rightarrow> string \<Rightarrow> bool" where
  "uuid_shape variants s =
     (length s = 36 \<and>
      list_all lower_hex_digit (take 8 s) \<and> s ! 8 = CHR ''-'' \<and>
      list_all lower_hex_digit (take 4 (drop 9 s)) \<and> s ! 13 = CHR ''-'' \<and>
      s ! 14 = CHR ''4'' \<and> list_all lower_hex_digit (take 3 (drop 15 s)) \<and>
      s ! 18 = CHR ''-'' \<and>
      s ! 19 \<in> set variants \<and> list_all lower_hex_digit (take 3 (drop 20 s)) \<and>
      s ! 23 = CHR ''-'' \<and>
      list_all lower_hex_digit (take 12 (drop 24 s)))"

definition spec_uuid_v4 :: "string \<Rightarrow> bool" where
  "spec_uuid_v4 s = uuid_shape ''89ab'' s"

text \<open>
  The specification has the identifier of a Thread be a UUID. A store that holds it as
  such compares identifiers by value, for which the case of a hexadecimal digit does not
  matter, and prints them in lowercase. \<open>uuid_value\<close> is that lowercase form.
\<close>

fun lower_hex :: "char \<Rightarrow> char" where
  "lower_hex c =
     (if c = CHR ''A'' then CHR ''a'' else if c = CHR ''B'' then CHR ''b''
      else if c = CHR ''C'' then CHR ''c'' else if c = CHR ''D'' then CHR ''d''
      else if c = CHR ''E'' then CHR ''e'' else if c = CHR ''F'' then CHR ''f''
      else c)"

definition uuid_value :: "string \<Rightarrow> string" where
  "uuid_value s = map lower_hex s"

text \<open>The number of characters a term consumes.\<close>

fun width :: "re_term \<Rightarrow> nat" where
  "width Bol = 0"
| "width Eol = 0"
| "width (Once a) = 1"
| "width (Repeat a n) = n"

section \<open>Values of the request\<close>

text \<open>
  \<^verbatim>\<open>req.body\<close> is parsed JSON; a field that the body does not carry reads as
  \<^verbatim>\<open>undefined\<close>. The handlers test \<^verbatim>\<open>image\<close> and \<^verbatim>\<open>uploadId\<close> for truthiness.
  Numbers are integers here (a fraction is truthy as every non-zero number is); arrays and
  objects are left out.
\<close>

datatype jsval = JUndefined | JNull | JBool bool | JNum int | JStr string

fun truthy :: "jsval \<Rightarrow> bool" where
  "truthy JUndefined = False"
| "truthy JNull = False"
| "truthy (JBool b) = b"
| "truthy (JNum n) = (n \<noteq> 0)"
| "truthy (JStr s) = (s \<noteq> [])"

text \<open>\<^verbatim>\<open>req.query.page\<close>: absent, one string, or (a repeated or bracketed key) an array
  or an object.\<close>

datatype query_value =
  QUndefined | QString string | QArray "string list" | QObject "(string \<times> string) list"

subsection \<open>Numbers and \<^verbatim>\<open>parseInt(s, 10)\<close>\<close>

text \<open>
  A number is a JavaScript Number as far as the handlers can produce one: an integer that
  a double holds exactly, \<^verbatim>\<open>NaN\<close>, or an infinity (negative zero is not told from zero;
  nothing here divides). An integer up to \<open>2^53\<close> in magnitude is held exactly; a larger
  one is rounded to the nearest double, ties to the even significand, and from
  \<open>2^1024 - 2^970\<close> on it is an infinity. Every comparison with \<^verbatim>\<open>NaN\<close> is false and
  arithmetic on it gives \<^verbatim>\<open>NaN\<close>; products and differences are rounded like any other
  integer.

  \<^verbatim>\<open>parseInt\<close> with radix 10 skips leading white space, reads an optional sign, then the
  longest run of decimal digits; no digit gives \<^verbatim>\<open>NaN\<close>, whatever follows the digits is
  ignored, and the value of the digits is rounded to a Number. Characters are the code
  units below 256, so the white space is TAB, LF, VT, FF, CR, SP and NBSP.
\<close>

datatype number = NaN | Num int | PosInf | NegInf

function bit_length :: "int \<Rightarrow> nat" where
  "bit_length n = (if n \<le> 0 then 0 else Suc (bit_length (n div 2)))"
  by pat_completeness auto
termination
  by (relation "measure nat") auto

definition round_to_double :: "int \<Rightarrow> number" where
  "round_to_double n =
     (if \<bar>n\<bar> \<le> 2 ^ 53 then Num n
      else
        (let a = \<bar>n\<bar>;
             shift = bit_length a - 53;
             q = a div 2 ^ shift;
             r = a mod 2 ^ shift;
             half = 2 ^ (shift - 1);
             q' = (if r > half \<or> (r = half \<and> odd q) then q + 1 else q);
             v = q' * 2 ^ shift
         in if 2 ^ 1024 \<le> v then (if n < 0 then NegInf else PosInf)
            else Num (if n < 0 then - v else v)))"

fun js_gt :: "number \<Rightarrow> number \<Rightarrow> bool" where
  "js_gt (Num a) (Num b) = (a > b)"
| "js_gt PosInf (Num b) = True"
| "js_gt PosInf NegInf = True"
| "js_gt (Num a) NegInf = True"
| "js_gt _ _ = False"

fun js_times :: "number \<Rightarrow> number \<Rightarrow> number" where
  "js_times (Num a) (Num b) = round_to_double (a * b)"
| "js_times NaN _ = NaN"
| "js_times _ NaN = NaN"
| "js_times PosInf (Num b) = (if b = 0 then NaN else if 0 < b then PosInf else NegInf)"
| "js_times NegInf (Num b) = (if b = 0 then NaN else if 0 < b then NegInf else PosInf)"
| "js_times (Num a) PosInf = (if a = 0 then NaN else if 0 < a then PosInf else NegInf)"
| "js_times (Num a) NegInf = (if a = 0 then NaN else if 0 < a then NegInf else PosInf)"
| "js_times PosInf PosInf = PosInf"
| "js_times NegInf NegInf = PosInf"
| "js_times PosInf NegInf = NegInf"
| "js_times NegInf PosInf = NegInf"

fun js_minus :: "number \<Rightarrow> number \<Rightarrow> number" where
  "js_minus (Num a) (Num b) = round_to_double (a - b)"
| "js_minus NaN _ = NaN"
| "js_minus _ NaN = NaN"
| "js_minus PosInf PosInf = NaN"
| "js_minus NegInf NegInf = NaN"
| "js_minus PosInf _ = PosInf"
| "js_minus NegInf _ = NegInf"
| "js_minus (Num a) PosInf = NegInf"
| "js_minus (Num a) NegInf = PosInf"

definition is_white_space :: "char \<Rightarrow> bool" where
  "is_white_space c = ((of_char c :: nat) \<in> set [9, 10, 11, 12, 13, 32, 160])"

definition is_digit :: "char \<Rightarrow> bool" where
  "is_digit c = ((of_char CHR ''0'' :: nat) \<le> of_char c \<and> (of_char c :: nat) \<le> of_char CHR ''9'')"

definition digit_value :: "char \<Rightarrow> int" where
  "digit_value c = int (of_char c) - int (of_char CHR ''0'')"

definition digits_value :: "string \<Rightarrow> int" where
  "digits_value z = foldl (\<lambda>acc c. acc * 10 + digit_value c) 0 z"

definition parseInt :: "string \<Rightarrow> number" where
  "parseInt inputString =
     (let S = dropWhile is_white_space inputString;
          sign = (if S \<noteq> [] \<and> hd S = CHR ''-'' then - 1 else 1 :: int);
          S' = (if S \<noteq> [] \<and> (hd S = CHR ''+'' \<or> hd S = CHR ''-'') then tl S else S);
          Z = takeWhile is_digit S'
      in if Z = [] then NaN else round_to_double (sign * digits_value Z))"

section \<open>The entity store\<close>

text \<open>
  The three repositories are handles on the tables of one relational store. The entity
  declarations (\<^verbatim>\<open>database/entities\<close>) are not part of the source, so a row carries what
  the specification's data model gives the entity and the handlers name. A column holds
  the value that was written to it; a column left out of an insert holds \<^verbatim>\<open>null\<close>.
\<close>

text \<open>Modelled from the spec: the User entity (\<^verbatim>\<open>database/entities/User\<close>), with
  identifier, username, full name and profile picture reference; the columns no handler
  names are carried along as a list.\<close>

record user =
  user_id :: string
  username :: string
  fullname :: string
  profile_picture :: jsval
  user_columns :: "(string \<times> jsval) list"

text \<open>Modelled from the spec: the Like entity, with identifier, timestamps and owning
  User (held as the user's key).\<close>

record like =
  like_id :: string
  like_created_at :: int
  like_updated_at :: int
  like_user :: string

text \<open>Modelled from the spec: the Reply entity, with the columns \<^verbatim>\<open>findOne\<close> selects
  and its owning User (held as the user's key).\<close>

record reply =
  reply_id :: string
  reply_content :: jsval
  reply_image :: jsval
  reply_created_at :: int
  reply_updated_at :: int
  reply_user :: string

text \<open>Modelled from the spec: the Thread entity (\<^verbatim>\<open>database/entities/Thread\<close>), with
  identifier, content, optional image reference, creation and update timestamps, owning
  User (held as the user's key), and its Likes and Replies (the one-to-many relations,
  kept with the row they belong to).\<close>

record thread =
  thread_id :: string
  thread_content :: jsval
  thread_image :: jsval
  thread_created_at :: int
  thread_updated_at :: int
  thread_user :: string
  thread_likes :: "like list"
  thread_replies :: "reply list"

text \<open>Modelled from the spec: the Upload entity (\<^verbatim>\<open>database/entities/Upload\<close>), a
  staged file reference under a key; its other columns are carried along as a list.\<close>

record upload =
  upload_id :: jsval
  upload_columns :: "(string \<times> jsval) list"

record database =
  users :: "user list"
  threads :: "thread list"
  uploads :: "upload list"

text \<open>
  The object a handler passes to \<^verbatim>\<open>save\<close>: \<^verbatim>\<open>new Thread()\<close> with the properties
  assigned so far, or the entity \<^verbatim>\<open>findOne\<close> loaded. A property never assigned is
  \<^verbatim>\<open>undefined\<close>; the \<^verbatim>\<open>user\<close> relation is absent unless it was assigned.
\<close>

record thread_entity =
  entity_id :: string
  entity_content :: jsval
  entity_image :: jsval
  entity_user :: "user option"

text \<open>Modelled from the spec: the exception classes \<^verbatim>\<open>BadRequestError\<close> and
  \<^verbatim>\<open>NotFoundError\<close> (\<^verbatim>\<open>utils/exception/custom\<close>), built from a message and a name as
  the handlers build them, and the unclassified error of a repository call that fails.\<close>

datatype error =
  BadRequestError string string
| NotFoundError string string
| StoreFailure

text \<open>The calls a handler issues to the repositories, in the order it issues them.\<close>

datatype store_op =
  UserFindOne string
| ThreadSave thread_entity
| UploadDelete jsval
| ThreadFind number number
| ThreadFindOne string
| ThreadDelete string

text \<open>
  What a request does not control: which repository calls fail (a lost connection, a
  constraint of the schema, a value the column type refuses), the time at which a row is
  inserted, the update timestamp the store leaves on a row that \<^verbatim>\<open>save\<close> rewrites (how
  the entity maintains it is not part of the source), and the identifier \<^verbatim>\<open>uuidv4()\<close>
  returns.
\<close>

record env =
  faults :: "store_op \<Rightarrow> bool"
  now :: int
  restamp :: "thread \<Rightarrow> int"
  uuidv4 :: string

record world =
  db :: database
  trace :: "store_op list"

definition issue :: "store_op \<Rightarrow> world \<Rightarrow> world" where
  "issue op w = w\<lparr>trace := trace w @ [op]\<rparr>"

subsection \<open>Repository calls\<close>

text \<open>
  Every call is recorded in the trace when it is issued. A call that fails changes no
  table.

  \<^verbatim>\<open>save\<close> updates the row with the entity's key when there is one, leaving alone every
  column whose property is \<^verbatim>\<open>undefined\<close>, and inserts a row otherwise. \<^verbatim>\<open>find\<close> orders
  by \<^verbatim>\<open>created_at\<close> descending, rows of equal time in table order (the store leaves
  their order open), then skips and takes; it fails when \<^verbatim>\<open>take\<close> or \<^verbatim>\<open>skip\<close> is
  negative, \<^verbatim>\<open>NaN\<close> or an infinity, and whether it takes a finite offset beyond its own
  integer range is among the failures of the environment. \<^verbatim>\<open>delete\<close> removes the rows
  with the key and succeeds when there is none.

  Keys are compared as the texts they are written in. That is the store's comparison of
  uuid values when the identifiers are in their lowercase form \<open>uuid_value\<close>, the form
  in which the store prints them and \<^verbatim>\<open>uuidv4()\<close> generates them.
\<close>

definition UserRepository_findOne ::
    "env \<Rightarrow> string \<Rightarrow> world \<Rightarrow> (error + user option) \<times> world" where
  "UserRepository_findOne e uid w =
     (let w' = issue (UserFindOne uid) w in
      if faults e (UserFindOne uid) then (Inl StoreFailure, w')
      else (Inr (find (\<lambda>u. user_id u = uid) (users (db w))), w'))"

definition ThreadRepository_findOne ::
    "env \<Rightarrow> string \<Rightarrow> world \<Rightarrow> (error + thread option) \<times> world" where
  "ThreadRepository_findOne e tid w =
     (let w' = issue (ThreadFindOne tid) w in
      if faults e (ThreadFindOne tid) then (Inl StoreFailure, w')
      else (Inr (find (\<lambda>t. thread_id t = tid) (threads (db w))), w'))"

definition update_row :: "env \<Rightarrow> thread_entity \<Rightarrow> thread \<Rightarrow> thread" where
  "update_row e ent t =
     t\<lparr>thread_content :=
         (if entity_content ent = JUndefined then thread_content t else entity_content ent),
       thread_image :=
         (if entity_image ent = JUndefined then thread_image t else entity_image ent),
       thread_updated_at := restamp e t,
       thread_user :=
         (case entity_user ent of None \<Rightarrow> thread_user t | Some u \<Rightarrow> user_id u)\<rparr>"

definition insert_row :: "env \<Rightarrow> thread_entity \<Rightarrow> user \<Rightarrow> thread" where
  "insert_row e ent u =
     \<lparr>thread_id = entity_id ent,
      thread_content = (if entity_content ent = JUndefined then JNull else entity_content ent),
      thread_image = (if entity_image ent = JUndefined then JNull else entity_image ent),
      thread_created_at = now e,
      thread_updated_at = now e,
      thread_user = user_id u,
      thread_likes = [],
      thread_replies = []\<rparr>"

definition ThreadRepository_save ::
    "env \<Rightarrow> thread_entity \<Rightarrow> world \<Rightarrow> (error + unit) \<times> world" where
  "ThreadRepository_save e ent w =
     (let w' = issue (ThreadSave ent) w in
      if faults e (ThreadSave ent) then (Inl StoreFailure, w')
      else if list_ex (\<lambda>t. thread_id t = entity_id ent) (threads (db w)) then
        (Inr (),
         w'\<lparr>db := (db w)\<lparr>threads :=
            map (\<lambda>t. if thread_id t = entity_id ent then update_row e ent t else t)
              (threads (db w))\<rparr>\<rparr>)
      else
        (case entity_user ent of
           None \<Rightarrow> (Inl StoreFailure, w')
         | Some u \<Rightarrow>
             (Inr (), w'\<lparr>db := (db w)\<lparr>threads := threads (db w) @ [insert_row e ent u]\<rparr>\<rparr>)))"

definition ThreadRepository_delete ::
    "env \<Rightarrow> string \<Rightarrow> world \<Rightarrow> (error + unit) \<times> world" where
  "ThreadRepository_delete e tid w =
     (let w' = issue (ThreadDelete tid) w in
      if faults e (ThreadDelete tid) then (Inl StoreFailure, w')
      else
        (Inr (),
         w'\<lparr>db := (db w)\<lparr>threads := filter (\<lambda>t. thread_id t \<noteq> tid) (threads (db w))\<rparr>\<rparr>))"

definition UploadRepository_delete ::
    "env \<Rightarrow> jsval \<Rightarrow> world \<Rightarrow> (error + unit) \<times> world" where
  "UploadRepository_delete e uid w =
     (let w' = issue (UploadDelete uid) w in
      if faults e (UploadDelete uid) then (Inl StoreFailure, w')
      else
        (Inr (),
         w'\<lparr>db := (db w)\<lparr>uploads := filter (\<lambda>u. upload_id u \<noteq> uid) (uploads (db w))\<rparr>\<rparr>))"

definition order_created_at_desc :: "thread list \<Rightarrow> thread list" where
  "order_created_at_desc ts = sort_key (\<lambda>t. - thread_created_at t) ts"

definition ThreadRepository_find ::
    "env \<Rightarrow> number \<Rightarrow> number \<Rightarrow> world \<Rightarrow> (error + thread list) \<times> world" where
  "ThreadRepository_find e tk sk w =
     (let w' = issue (ThreadFind tk sk) w in
      if faults e (ThreadFind tk sk) then (Inl StoreFailure, w')
      else
        (case (tk, sk) of
           (Num n, Num k) \<Rightarrow>
             if n < 0 \<or> k < 0 then (Inl StoreFailure, w')
             else (Inr (take (nat n) (drop (nat k) (order_created_at_desc (threads (db w))))), w')
         | _ \<Rightarrow> (Inl StoreFailure, w')))"

section \<open>The handlers\<close>

text \<open>
  A handler answers with \<^verbatim>\<open>res.status(n).json(...)\<close> or, from its \<^verbatim>\<open>catch\<close>, with
  \<^verbatim>\<open>handleError(res, error)\<close>. The records below are the shapes of the JSON data: what
  the \<^verbatim>\<open>select\<close> options keep of a User, a Like and a Reply, and a Thread with its
  relations loaded (its \<^verbatim>\<open>replies\<close> are Replies for \<^verbatim>\<open>findOne\<close> and their number for
  \<^verbatim>\<open>findAll\<close>).
\<close>

record user_summary =
  summary_id :: string
  summary_username :: string
  summary_fullname :: string
  summary_profile_picture :: jsval

record like_data =
  like_data_id :: string
  like_data_created_at :: int
  like_data_updated_at :: int
  like_data_user :: "user_summary option"

record reply_data =
  reply_data_id :: string
  reply_data_content :: jsval
  reply_data_image :: jsval
  reply_data_created_at :: int
  reply_data_updated_at :: int
  reply_data_user :: "user_summary option"

record 'r thread_data =
  data_id :: string
  data_content :: jsval
  data_image :: jsval
  data_created_at :: int
  data_updated_at :: int
  data_user :: "user_summary option"
  data_likes :: "like_data list"
  data_replies :: 'r

datatype payload =
  NoData
| ThreadData "reply_data list thread_data"
| ThreadList "nat thread_data list"

record envelope =
  code :: nat
  status :: string
  message :: string
  data :: payload

text \<open>Modelled from the spec: \<^verbatim>\<open>handleError\<close> (\<^verbatim>\<open>utils/exception/handleError\<close>), the
  shared translator every handler hands its errors to; the answer records the error it
  was handed.\<close>

datatype response = Json nat envelope | HandleError error

record request_body =
  content :: jsval
  image :: jsval
  uploadId :: jsval

text \<open>The \<^verbatim>\<open>relations\<close> and \<^verbatim>\<open>select\<close> options of the two queries.\<close>

definition select_user :: "database \<Rightarrow> string \<Rightarrow> user_summary option" where
  "select_user d uid =
     map_option
       (\<lambda>u. \<lparr>summary_id = user_id u, summary_username = username u,
              summary_fullname = fullname u, summary_profile_picture = profile_picture u\<rparr>)
       (find (\<lambda>u. user_id u = uid) (users d))"

definition select_like :: "database \<Rightarrow> like \<Rightarrow> like_data" where
  "select_like d l =
     \<lparr>like_data_id = like_id l, like_data_created_at = like_created_at l,
      like_data_updated_at = like_updated_at l, like_data_user = select_user d (like_user l)\<rparr>"

definition select_reply :: "database \<Rightarrow> reply \<Rightarrow> reply_data" where
  "select_reply d r =
     \<lparr>reply_data_id = reply_id r, reply_data_content = reply_content r,
      reply_data_image = reply_image r, reply_data_created_at = reply_created_at r,
      reply_data_updated_at = reply_updated_at r, reply_data_user = select_user d (reply_user r)\<rparr>"

definition load_thread :: "(reply list \<Rightarrow> 'r) \<Rightarrow> database \<Rightarrow> thread \<Rightarrow> 'r thread_data" where
  "load_thread rs d t =
     \<lparr>data_id = thread_id t, data_content = thread_content t, data_image = thread_image t,
      data_created_at = thread_created_at t, data_updated_at = thread_updated_at t,
      data_user = select_user d (thread_user t),
      data_likes = map (select_like d) (thread_likes t),
      data_replies = rs (thread_replies t)\<rparr>"

definition success :: "nat \<Rightarrow> string \<Rightarrow> payload \<Rightarrow> response" where
  "success n msg d = Json n \<lparr>code = n, status = ''success'', message = msg, data = d\<rparr>"

definition uuid_error :: error where
  "uuid_error = BadRequestError ''The sent ID is not a valid UUID format'' ''UUID Error''"

definition thread_not_found :: "string \<Rightarrow> error" where
  "thread_not_found threadId =
     NotFoundError (''Thread with ID '' @ threadId @ '' not found'') ''Thread Not Found''"

definition user_not_found :: "string \<Rightarrow> error" where
  "user_not_found authId =
     NotFoundError (''User with ID '' @ authId @ '' not found'') ''User Not Found''"

text \<open>The entity \<^verbatim>\<open>add\<close> builds: \<^verbatim>\<open>image\<close> is assigned only when it is truthy.\<close>

definition new_thread :: "env \<Rightarrow> request_body \<Rightarrow> user \<Rightarrow> thread_entity" where
  "new_thread e body userSelected =
     \<lparr>entity_id = uuidv4 e,
      entity_content = content body,
      entity_image = (if truthy (image body) then image body else JUndefined),
      entity_user = Some userSelected\<rparr>"

definition add :: "env \<Rightarrow> string \<Rightarrow> request_body \<Rightarrow> world \<Rightarrow> response \<times> world" where
  "add e authId body w =
     (case UserRepository_findOne e authId w of
        (Inl err, w1) \<Rightarrow> (HandleError err, w1)
      | (Inr None, w1) \<Rightarrow> (HandleError (user_not_found authId), w1)
      | (Inr (Some userSelected), w1) \<Rightarrow>
          (let thread = new_thread e body userSelected
           in case ThreadRepository_save e thread w1 of
                (Inl err, w2) \<Rightarrow> (HandleError err, w2)
              | (Inr _, w2) \<Rightarrow>
                  if truthy (uploadId body) then
                    (case UploadRepository_delete e (uploadId body) w2 of
                       (Inl err, w3) \<Rightarrow> (HandleError err, w3)
                     | (Inr _, w3) \<Rightarrow> (success 201 ''Add Thread Success'' NoData, w3))
                  else (success 201 ''Add Thread Success'' NoData, w2)))"

text \<open>The two statements that compute \<^verbatim>\<open>page\<close>: the parse, then the clamp.\<close>

definition page_query :: "query_value \<Rightarrow> number" where
  "page_query q = (case q of QString s \<Rightarrow> parseInt s | _ \<Rightarrow> Num 1)"

definition clamp_page :: "number \<Rightarrow> number" where
  "clamp_page page = (if js_gt page (Num 1) then page else Num 1)"

definition findAll :: "env \<Rightarrow> query_value \<Rightarrow> world \<Rightarrow> response \<times> world" where
  "findAll e q w =
     (let page = page_query q;
          page = clamp_page page
      in case ThreadRepository_find e (Num 10) (js_minus (js_times page (Num 10)) (Num 10)) w of
           (Inl err, w1) \<Rightarrow> (HandleError err, w1)
         | (Inr found, w1) \<Rightarrow>
             (success 200 ''Find All Thread Success''
                (ThreadList (map (load_thread length (db w)) found)), w1))"

definition findOne :: "env \<Rightarrow> string \<Rightarrow> world \<Rightarrow> response \<times> world" where
  "findOne e threadId w =
     (if \<not> regex_test uuid_regex threadId then (HandleError uuid_error, w)
      else
        (case ThreadRepository_findOne e threadId w of
           (Inl err, w1) \<Rightarrow> (HandleError err, w1)
         | (Inr None, w1) \<Rightarrow> (HandleError (thread_not_found threadId), w1)
         | (Inr (Some thread), w1) \<Rightarrow>
             (success 200 ''Find One Thread Success''
                (ThreadData (load_thread (map (select_reply (db w))) (db w) thread)), w1)))"

definition updateOne :: "env \<Rightarrow> string \<Rightarrow> request_body \<Rightarrow> world \<Rightarrow> response \<times> world" where
  "updateOne e threadId body w =
     (if \<not> regex_test uuid_regex threadId then (HandleError uuid_error, w)
      else
        (case ThreadRepository_findOne e threadId w of
           (Inl err, w1) \<Rightarrow> (HandleError err, w1)
         | (Inr None, w1) \<Rightarrow> (HandleError (thread_not_found threadId), w1)
         | (Inr (Some found), w1) \<Rightarrow>
             (let thread =
                    \<lparr>entity_id = thread_id found,
                     entity_content = content body,
                     entity_image = thread_image found,
                     entity_user = None\<rparr>
              in case ThreadRepository_save e thread w1 of
                   (Inl err, w2) \<Rightarrow> (HandleError err, w2)
                 | (Inr _, w2) \<Rightarrow> (success 200 ''Update One Thread Success'' NoData, w2))))"

definition deleteOne :: "env \<Rightarrow> string \<Rightarrow> world \<Rightarrow> response \<times> world" where
  "deleteOne e threadId w =
     (if \<not> regex_test uuid_regex threadId then (HandleError uuid_error, w)
      else
        (case ThreadRepository_findOne e threadId w of
           (Inl err, w1) \<Rightarrow> (HandleError err, w1)
         | (Inr None, w1) \<Rightarrow> (HandleError (thread_not_found threadId), w1)
         | (Inr (Some thread), w1) \<Rightarrow>
             (case ThreadRepository_delete e threadId w1 of
                (Inl err, w2) \<Rightarrow> (HandleError err, w2)
              | (Inr _, w2) \<Rightarrow> (success 200 ''Delete One Thread Success'' NoData, w2))))"

section \<open>Observations on a run\<close>

text \<open>
  The calls a handler issued, read off the trace before and after it; the keys of the
  Uploads whose deletion was issued, in order; and the relation between two worlds in
  which a Thread that is in both has the same owning user.
\<close>

definition issued_by :: "world \<Rightarrow> world \<Rightarrow> store_op list" where
  "issued_by w w' = drop (length (trace w)) (trace w')"

fun upload_deletes :: "store_op list \<Rightarrow> jsval list" where
  "upload_deletes [] = []"
| "upload_deletes (UploadDelete u # ops) = u # upload_deletes ops"
| "upload_deletes (_ # ops) = upload_deletes ops"

definition same_owners :: "world \<Rightarrow> world \<Rightarrow> bool" where
  "same_owners w w' =
     (\<forall>t \<in> set (threads (db w)). \<forall>t' \<in> set (threads (db w')).
        thread_id t' = thread_id t \<longrightarrow> thread_user t' = thread_user t)"

section \<open>Concrete stores and requests\<close>

text \<open>A store with one user, one thread and one staged upload, and the environments the
  properties below are instantiated at.\<close>

definition ann :: user where
  "ann = \<lparr>user_id = ''u1'', username = ''ann'', fullname = ''Ann Lee'',
          profile_picture = JNull, user_columns = []\<rparr>"

definition first_thread :: thread where
  "first_thread =
     \<lparr>thread_id = ''11111111-1111-4111-8111-111111111111'',
      thread_content = JStr ''first'', thread_image = JStr ''a.png'',
      thread_created_at = 1, thread_updated_at = 1, thread_user = ''u1'',
      thread_likes = [], thread_replies = []\<rparr>"

definition small_world :: world where
  "small_world =
     \<lparr>db = \<lparr>users = [ann], threads = [first_thread],
             uploads = [\<lparr>upload_id = JNum 3, upload_columns = []\<rparr>]\<rparr>,
      trace = []\<rparr>"

definition second_thread :: thread where
  "second_thread =
     \<lparr>thread_id = ''33333333-3333-4333-a333-333333333333'',
      thread_content = JStr ''second'', thread_image = JNull,
      thread_created_at = 2, thread_updated_at = 2, thread_user = ''u1'',
      thread_likes = [], thread_replies = []\<rparr>"

definition two_threads :: world where
  "two_threads =
     \<lparr>db = \<lparr>users = [ann], threads = [first_thread, second_thread], uploads = []\<rparr>,
      trace = []\<rparr>"

definition a_reply :: reply where
  "a_reply = \<lparr>reply_id = ''r1'', reply_content = JStr ''ok'', reply_image = JNull,
              reply_created_at = 9, reply_updated_at = 9, reply_user = ''u1''\<rparr>"

definition numbered_thread :: "string \<Rightarrow> int \<Rightarrow> reply list \<Rightarrow> thread" where
  "numbered_thread nn at rs =
     \<lparr>thread_id = ''00000000-0000-4000-8000-0000000000'' @ nn,
      thread_content = JStr (''post '' @ nn), thread_image = JNull,
      thread_created_at = at, thread_updated_at = at, thread_user = ''u1'',
      thread_likes = [], thread_replies = rs\<rparr>"

definition twelve_threads :: world where
  "twelve_threads =
     \<lparr>db = \<lparr>users = [ann],
             threads =
               [numbered_thread ''01'' 1 [], numbered_thread ''02'' 2 [a_reply],
                numbered_thread ''03'' 3 [], numbered_thread ''04'' 4 [],
                numbered_thread ''05'' 5 [], numbered_thread ''06'' 6 [],
                numbered_thread ''07'' 7 [], numbered_thread ''08'' 8 [],
                numbered_thread ''09'' 9 [], numbered_thread ''10'' 10 [],
                numbered_thread ''11'' 11 [], numbered_thread ''12'' 12 []],
             uploads = []\<rparr>,
      trace = []\<rparr>"

definition calm :: env where
  "calm = \<lparr>faults = (\<lambda>op. False), now = 5, restamp = (\<lambda>t. 5),
           uuidv4 = ''00000000-0000-4000-8000-000000000000''\<rparr>"

definition upload_delete_fails :: env where
  "upload_delete_fails =
     \<lparr>faults = (\<lambda>op. op = UploadDelete (JNum 3)), now = 5, restamp = (\<lambda>t. 5),
      uuidv4 = ''00000000-0000-4000-8000-000000000000''\<rparr>"

section \<open>The identifier pattern: what it accepts\<close>

lemma of_char_is: "of_char d = (n::nat) \<Longrightarrow> (of_char c = n) = (c = d)"
  by auto

lemma digit_iff: "in_item c Digit = (c \<in> set ''0123456789'')"
proof -
  define n :: nat where "n = of_char c"
  have d: "(48 \<le> n \<and> n \<le> 57) =
      (n = 48 \<or> n = 49 \<or> n = 50 \<or> n = 51 \<or> n = 52 \<or> n = 53 \<or> n = 54 \<or> n = 55 \<or> n = 56 \<or> n = 57)"
    by arith
  have codes:
    "(n = 48) = (c = CHR ''0'')" "(n = 49) = (c = CHR ''1'')"
    "(n = 50) = (c = CHR ''2'')" "(n = 51) = (c = CHR ''3'')"
    "(n = 52) = (c = CHR ''4'')" "(n = 53) = (c = CHR ''5'')"
    "(n = 54) = (c = CHR ''6'')" "(n = 55) = (c = CHR ''7'')"
    "(n = 56) = (c = CHR ''8'')" "(n = 57) = (c = CHR ''9'')"
    unfolding n_def by (rule of_char_is, simp)+
  have "in_item c Digit = (48 \<le> n \<and> n \<le> 57)"
    by (simp add: n_def)
  also have "\<dots> = (c \<in> set ''0123456789'')"
    unfolding d codes by simp
  finally show ?thesis .
qed

lemma range_a_f_iff: "in_item c (Range CHR ''a'' CHR ''f'') = (c \<in> set ''abcdef'')"
proof -
  define n :: nat where "n = of_char c"
  have d: "(97 \<le> n \<and> n \<le> 102) =
      (n = 97 \<or> n = 98 \<or> n = 99 \<or> n = 100 \<or> n = 101 \<or> n = 102)"
    by arith
  have codes:
    "(n = 97) = (c = CHR ''a'')" "(n = 98) = (c = CHR ''b'')"
    "(n = 99) = (c = CHR ''c'')" "(n = 100) = (c = CHR ''d'')"
    "(n = 101) = (c = CHR ''e'')" "(n = 102) = (c = CHR ''f'')"
    unfolding n_def by (rule of_char_is, simp)+
  have "in_item c (Range CHR ''a'' CHR ''f'') = (97 \<le> n \<and> n \<le> 102)"
    by (simp add: n_def)
  also have "\<dots> = (c \<in> set ''abcdef'')"
    unfolding d codes by simp
  finally show ?thesis .
qed

lemma hex_lower_iff: "atom_matches hex_lower c = lower_hex_digit c"
proof -
  have "atom_matches hex_lower c =
      (in_item c (Range CHR ''a'' CHR ''f'') \<or> in_item c Digit)"
    by (simp add: hex_lower_def del: in_item.simps)
  then show ?thesis
    unfolding digit_iff range_a_f_iff lower_hex_digit_def by auto
qed

lemma variant_class_iff: "atom_matches (Class (map Single vs)) c = (c \<in> set vs)"
  by (induction vs) auto

lemma match_at_Repeat:
  "match_at (Repeat a n # ts) pos s =
     (n \<le> length s \<and> list_all (atom_matches a) (take n s) \<and> match_at ts (pos + n) (drop n s))"
proof (induction n arbitrary: s pos)
  case 0
  then show ?case by simp
next
  case (Suc n)
  show ?case
    by (cases s) (auto simp: Suc)
qed

lemma match_at_Once:
  "match_at (Once a # ts) pos s =
     (1 \<le> length s \<and> atom_matches a (s ! 0) \<and> match_at ts (Suc pos) (drop 1 s))"
  by (cases s) auto

lemma regex_test_Bol: "regex_test (Bol # ts) s = match_at ts 0 s"
proof -
  have "list_ex (\<lambda>i. match_at (Bol # ts) i (drop i s)) [0 ..< Suc n] = match_at ts 0 s" for n
    by (induction n) auto
  then show ?thesis by (simp add: regex_test_def del: upt_Suc)
qed

lemma hex_lower_fun: "atom_matches hex_lower = lower_hex_digit"
  by (rule ext) (rule hex_lower_iff)

lemmas match_at_seq =
  match_at_Repeat match_at_Once match_at.simps(1) match_at.simps(3)

lemma match_at_width:
  "match_at (ts @ [Eol]) pos s \<Longrightarrow> length s = sum_list (map width ts)"
proof (induction ts pos s rule: match_at.induct)
  case (4 a ts pos s)
  then show ?case by (cases s) auto
next
  case (6 a n ts pos s)
  then show ?case by (cases s) auto
qed auto

lemma uuid_test_length: "regex_test uuid_regex s \<Longrightarrow> length s = 36"
proof -
  assume "regex_test uuid_regex s"
  then have "match_at (butlast (tl uuid_regex) @ [Eol]) 0 s"
    by (simp add: uuid_regex_def regex_test_Bol del: match_at.simps)
  from match_at_width [OF this] show ?thesis
    by (simp add: uuid_regex_def)
qed

lemma uuid_test_iff: "regex_test uuid_regex s = uuid_shape ''89aAbB'' s"
proof (cases "length s = 36")
  case True
  have "regex_test uuid_regex s =
      (list_all lower_hex_digit (take 8 s) \<and> s ! 8 = CHR ''-'' \<and>
       list_all lower_hex_digit (take 4 (drop 9 s)) \<and> s ! 13 = CHR ''-'' \<and>
       s ! 14 = CHR ''4'' \<and> list_all lower_hex_digit (take 3 (drop 15 s)) \<and>
       s ! 18 = CHR ''-'' \<and>
       s ! 19 \<in> set ''89aAbB'' \<and> list_all lower_hex_digit (take 3 (drop 20 s)) \<and>
       s ! 23 = CHR ''-'' \<and>
       list_all lower_hex_digit (take 12 (drop 24 s)))"
    unfolding uuid_regex_def regex_test_Bol
    by (simp only: match_at_seq variant_class_iff hex_lower_fun)
       (simp add: True del: set_simps)
  then show ?thesis
    by (simp only: uuid_shape_def True simp_thms)
next
  case False
  then have "\<not> uuid_shape ''89aAbB'' s"
    by (simp add: uuid_shape_def)
  moreover have "\<not> regex_test uuid_regex s"
    using False uuid_test_length by blast
  ultimately show ?thesis by simp
qed

text \<open>
  Claim C1, as amended. The validator of \<^verbatim>\<open>findOne\<close>, \<^verbatim>\<open>updateOne\<close> and
  \<^verbatim>\<open>deleteOne\<close> accepts exactly the strings of 36 characters made of groups of 8, 4, 4,
  4 and 12 lowercase hexadecimal digits separated by hyphens, with version nibble 4 and
  variant nibble one of 8, 9, a, A, b, B. So it accepts every identifier of the
  specification (lowercase throughout, variant nibble 8, 9, a or b) and, beyond those,
  only the strings of the same shape whose variant nibble is an uppercase A or B; every
  string that breaks a group length, the version nibble, or the lowercase rule at any
  other digit is rejected.
\<close>

theorem uuid_validator_shape:
  "regex_test uuid_regex s = uuid_shape ''89aAbB'' s \<and>
   regex_test uuid_regex s = (spec_uuid_v4 s \<or> uuid_shape ''AB'' s)"
proof -
  have "uuid_shape ''89aAbB'' s = (spec_uuid_v4 s \<or> uuid_shape ''AB'' s)"
    unfolding spec_uuid_v4_def uuid_shape_def by auto
  then show ?thesis using uuid_test_iff by simp
qed

text \<open>
  Claim C1 as stated fails: the validator accepts a string whose variant nibble is the
  uppercase digit A, which breaks the lowercase requirement and is not an identifier of
  the specification.
\<close>

theorem uuid_uppercase_variant_counterexample:
  "regex_test uuid_regex ''00000000-0000-4000-A000-000000000000'' \<and>
   \<not> lower_hex_digit (''00000000-0000-4000-A000-000000000000'' ! 19) \<and>
   \<not> spec_uuid_v4 ''00000000-0000-4000-A000-000000000000''"
  by code_simp

section \<open>Rejections: malformed and unassigned identifiers, unknown users\<close>

lemma find_None_image: "(find (\<lambda>x. f x = k) xs = None) = (k \<notin> f ` set xs)"
  by (auto simp: find_None_iff)

lemma find_Some_image: "k \<in> f ` set xs \<Longrightarrow> \<exists>x. find (\<lambda>x. f x = k) xs = Some x \<and> f x = k"
  by (induction xs) auto

text \<open>
  Claim C2. When \<open>threadId\<close> does not match the pattern, \<^verbatim>\<open>findOne\<close>, \<^verbatim>\<open>updateOne\<close>
  and \<^verbatim>\<open>deleteOne\<close> each hand a \<^verbatim>\<open>BadRequestError\<close> to the error handler and return the
  world they were given: no table has changed and the trace has no new entry, so no read,
  write or delete was issued to any repository, whatever the environment.
\<close>

theorem malformed_id_rejected:
  assumes "\<not> regex_test uuid_regex threadId"
  shows "findOne e threadId w = (HandleError uuid_error, w) \<and>
         updateOne e threadId body w = (HandleError uuid_error, w) \<and>
         deleteOne e threadId w = (HandleError uuid_error, w) \<and>
         issued_by w (snd (findOne e threadId w)) = [] \<and>
         issued_by w (snd (updateOne e threadId body w)) = [] \<and>
         issued_by w (snd (deleteOne e threadId w)) = [] \<and>
         uuid_error = BadRequestError ''The sent ID is not a valid UUID format'' ''UUID Error''"
  using assms
  by (simp add: findOne_def updateOne_def deleteOne_def uuid_error_def issued_by_def)

text \<open>Claim C2 at the identifier \<^verbatim>\<open>not-a-uuid\<close>.\<close>

theorem malformed_id_rejected_witness:
  "\<not> regex_test uuid_regex ''not-a-uuid'' \<and>
   findOne calm ''not-a-uuid'' small_world = (HandleError uuid_error, small_world) \<and>
   updateOne calm ''not-a-uuid'' \<lparr>content = JStr ''x'', image = JUndefined, uploadId = JUndefined\<rparr>
       small_world = (HandleError uuid_error, small_world) \<and>
   deleteOne calm ''not-a-uuid'' small_world = (HandleError uuid_error, small_world)"
proof -
  have h: "\<not> regex_test uuid_regex ''not-a-uuid''" by code_simp
  show ?thesis
    using h malformed_id_rejected [OF h, of calm small_world
        "\<lparr>content = JStr ''x'', image = JUndefined, uploadId = JUndefined\<rparr>"]
    by simp
qed

lemma uuid_value_absent:
  "uuid_value k \<notin> (\<lambda>t. uuid_value (thread_id t)) ` set ts \<Longrightarrow> k \<notin> thread_id ` set ts"
  by auto

text \<open>
  Claim C3. For a well-formed \<open>threadId\<close> that is assigned to no Thread in the store,
  the identifiers being compared as uuid values, \<^verbatim>\<open>updateOne\<close> and \<^verbatim>\<open>deleteOne\<close> hand a
  \<^verbatim>\<open>NotFoundError\<close> to the error handler; the one call they issue is the lookup, and
  the tables are as before. The lookup is taken to answer: a lookup that fails is reported
  as the store's failure instead.
\<close>

theorem unassigned_id_not_found:
  assumes "regex_test uuid_regex threadId"
    and "uuid_value threadId \<notin> (\<lambda>t. uuid_value (thread_id t)) ` set (threads (db w))"
    and "\<not> faults e (ThreadFindOne threadId)"
  shows "updateOne e threadId body w =
           (HandleError (thread_not_found threadId), issue (ThreadFindOne threadId) w) \<and>
         deleteOne e threadId w =
           (HandleError (thread_not_found threadId), issue (ThreadFindOne threadId) w) \<and>
         db (snd (updateOne e threadId body w)) = db w \<and>
         db (snd (deleteOne e threadId w)) = db w \<and>
         thread_not_found threadId =
           NotFoundError (''Thread with ID '' @ threadId @ '' not found'') ''Thread Not Found''"
proof -
  have "threadId \<notin> thread_id ` set (threads (db w))"
    using assms(2) by (rule uuid_value_absent)
  then have "find (\<lambda>t. thread_id t = threadId) (threads (db w)) = None"
    by (simp add: find_None_image)
  then show ?thesis
    using assms(1,3)
    by (simp add: updateOne_def deleteOne_def ThreadRepository_findOne_def issue_def
          thread_not_found_def)
qed

text \<open>Claim C3 at two well-formed identifiers that the two-thread store does not hold, one
  of them with an uppercase variant nibble.\<close>

theorem unassigned_id_not_found_witness:
  "regex_test uuid_regex ''22222222-2222-4222-9222-222222222222'' \<and>
   uuid_value ''22222222-2222-4222-9222-222222222222'' \<notin>
     (\<lambda>t. uuid_value (thread_id t)) ` set (threads (db two_threads)) \<and>
   \<not> faults calm (ThreadFindOne ''22222222-2222-4222-9222-222222222222'') \<and>
   fst (updateOne calm ''22222222-2222-4222-9222-222222222222''
         \<lparr>content = JStr ''x'', image = JUndefined, uploadId = JUndefined\<rparr> two_threads) =
     HandleError (thread_not_found ''22222222-2222-4222-9222-222222222222'') \<and>
   fst (deleteOne calm ''22222222-2222-4222-9222-222222222222'' two_threads) =
     HandleError (thread_not_found ''22222222-2222-4222-9222-222222222222'') \<and>
   regex_test uuid_regex ''22222222-2222-4222-B222-222222222222'' \<and>
   uuid_value ''22222222-2222-4222-B222-222222222222'' \<notin>
     (\<lambda>t. uuid_value (thread_id t)) ` set (threads (db two_threads)) \<and>
   fst (deleteOne calm ''22222222-2222-4222-B222-222222222222'' two_threads) =
     HandleError (thread_not_found ''22222222-2222-4222-B222-222222222222'')"
proof -
  have a: "regex_test uuid_regex ''22222222-2222-4222-9222-222222222222''"
    and a': "regex_test uuid_regex ''22222222-2222-4222-B222-222222222222''"
    by code_simp+
  have b: "uuid_value ''22222222-2222-4222-9222-222222222222'' \<notin>
      (\<lambda>t. uuid_value (thread_id t)) ` set (threads (db two_threads))"
    and b': "uuid_value ''22222222-2222-4222-B222-222222222222'' \<notin>
      (\<lambda>t. uuid_value (thread_id t)) ` set (threads (db two_threads))"
    by code_simp+
  have c: "\<not> faults calm (ThreadFindOne ''22222222-2222-4222-9222-222222222222'')"
    and c': "\<not> faults calm (ThreadFindOne ''22222222-2222-4222-B222-222222222222'')"
    by (simp_all add: calm_def)
  show ?thesis
    using a b c a' b'
      unassigned_id_not_found [OF a b c,
        of "\<lparr>content = JStr ''x'', image = JUndefined, uploadId = JUndefined\<rparr>"]
      unassigned_id_not_found [OF a' b' c',
        of "\<lparr>content = JStr ''x'', image = JUndefined, uploadId = JUndefined\<rparr>"]
    by simp
qed

text \<open>
  An identifier that differs from a stored one only in the case of its variant nibble is
  assigned: the pattern admits it and its uuid value is that of the second thread, so the
  property above does not speak of it.
\<close>

lemma uppercase_variant_is_assigned:
  "regex_test uuid_regex ''33333333-3333-4333-A333-333333333333'' \<and>
   ''33333333-3333-4333-A333-333333333333'' \<notin> thread_id ` set (threads (db two_threads)) \<and>
   uuid_value ''33333333-3333-4333-A333-333333333333'' \<in>
     (\<lambda>t. uuid_value (thread_id t)) ` set (threads (db two_threads))"
  by code_simp

text \<open>
  Claim C6. When \<open>authId\<close> is the key of no User, \<^verbatim>\<open>add\<close> hands a \<^verbatim>\<open>NotFoundError\<close> to
  the error handler; the only call issued is the user lookup, so no Thread is saved and
  every table, the Thread table among them, is as before. The lookup is taken to answer.
\<close>

theorem add_unknown_user:
  assumes "authId \<notin> user_id ` set (users (db w))"
    and "\<not> faults e (UserFindOne authId)"
  shows "add e authId body w = (HandleError (user_not_found authId), issue (UserFindOne authId) w) \<and>
         threads (db (snd (add e authId body w))) = threads (db w) \<and>
         db (snd (add e authId body w)) = db w \<and>
         trace (snd (add e authId body w)) = trace w @ [UserFindOne authId] \<and>
         user_not_found authId =
           NotFoundError (''User with ID '' @ authId @ '' not found'') ''User Not Found''"
proof -
  have "find (\<lambda>u. user_id u = authId) (users (db w)) = None"
    using assms(1) by (simp add: find_None_image)
  then show ?thesis
    using assms(2)
    by (simp add: add_def UserRepository_findOne_def issue_def user_not_found_def)
qed

text \<open>Claim C6 at a user key the store does not hold.\<close>

theorem add_unknown_user_witness:
  "''u9'' \<notin> user_id ` set (users (db small_world)) \<and>
   \<not> faults calm (UserFindOne ''u9'') \<and>
   fst (add calm ''u9'' \<lparr>content = JStr ''x'', image = JUndefined, uploadId = JNum 3\<rparr> small_world) =
     HandleError (user_not_found ''u9'') \<and>
   threads (db (snd (add calm ''u9''
       \<lparr>content = JStr ''x'', image = JUndefined, uploadId = JNum 3\<rparr> small_world))) =
     [first_thread]"
proof -
  have a: "''u9'' \<notin> user_id ` set (users (db small_world))"
    by (simp add: small_world_def ann_def)
  have b: "\<not> faults calm (UserFindOne ''u9'')"
    by (simp add: calm_def)
  show ?thesis
    using a b add_unknown_user [OF a b,
        of "\<lparr>content = JStr ''x'', image = JUndefined, uploadId = JNum 3\<rparr>"]
    by (simp add: small_world_def issue_def)
qed

section \<open>Deleting twice\<close>

text \<open>
  Claim C9. With a Thread stored under the well-formed \<open>threadId\<close>, the first
  \<^verbatim>\<open>deleteOne\<close> answers with status 200, after it no row of the Thread table carries
  \<open>threadId\<close>, and a second \<^verbatim>\<open>deleteOne\<close> on the resulting store hands a
  \<^verbatim>\<open>NotFoundError\<close> to the error handler. The repository calls of both requests are taken
  to answer.
\<close>

theorem deleteOne_twice:
  assumes "regex_test uuid_regex threadId"
    and "threadId \<in> thread_id ` set (threads (db w))"
    and "\<not> faults e1 (ThreadFindOne threadId)" and "\<not> faults e1 (ThreadDelete threadId)"
    and "\<not> faults e2 (ThreadFindOne threadId)"
  shows "fst (deleteOne e1 threadId w) = success 200 ''Delete One Thread Success'' NoData \<and>
         threadId \<notin> thread_id ` set (threads (db (snd (deleteOne e1 threadId w)))) \<and>
         fst (deleteOne e2 threadId (snd (deleteOne e1 threadId w))) =
           HandleError (thread_not_found threadId)"
proof -
  from find_Some_image [OF assms(2)] obtain t where
    t: "find (\<lambda>t. thread_id t = threadId) (threads (db w)) = Some t" by blast
  let ?w1 = "snd (deleteOne e1 threadId w)"
  have first: "deleteOne e1 threadId w =
      (success 200 ''Delete One Thread Success'' NoData,
       (issue (ThreadDelete threadId) (issue (ThreadFindOne threadId) w))
         \<lparr>db := (db w)\<lparr>threads := filter (\<lambda>t. thread_id t \<noteq> threadId) (threads (db w))\<rparr>\<rparr>)"
    using assms(1,3,4) t
    by (simp add: deleteOne_def ThreadRepository_findOne_def ThreadRepository_delete_def
          issue_def)
  then have gone: "threadId \<notin> thread_id ` set (threads (db ?w1))"
    by (auto simp: issue_def)
  have none: "find (\<lambda>t. thread_id t = threadId) (threads (db ?w1)) = None"
    using gone by (simp add: find_None_image)
  have second: "fst (deleteOne e2 threadId ?w1) = HandleError (thread_not_found threadId)"
    using assms(1,5) none
    by (simp add: deleteOne_def ThreadRepository_findOne_def issue_def)
  from first gone second show ?thesis by simp
qed

text \<open>Claim C9 at the thread of the one-thread store.\<close>

theorem deleteOne_twice_witness:
  "regex_test uuid_regex ''11111111-1111-4111-8111-111111111111'' \<and>
   ''11111111-1111-4111-8111-111111111111'' \<in> thread_id ` set (threads (db small_world)) \<and>
   \<not> faults calm (ThreadFindOne ''11111111-1111-4111-8111-111111111111'') \<and>
   \<not> faults calm (ThreadDelete ''11111111-1111-4111-8111-111111111111'') \<and>
   fst (deleteOne calm ''11111111-1111-4111-8111-111111111111'' small_world) =
     success 200 ''Delete One Thread Success'' NoData \<and>
   ''11111111-1111-4111-8111-111111111111'' \<notin>
     thread_id ` set (threads (db (snd
       (deleteOne calm ''11111111-1111-4111-8111-111111111111'' small_world)))) \<and>
   fst (deleteOne calm ''11111111-1111-4111-8111-111111111111''
         (snd (deleteOne calm ''11111111-1111-4111-8111-111111111111'' small_world))) =
     HandleError (thread_not_found ''11111111-1111-4111-8111-111111111111'')"
proof -
  have a: "regex_test uuid_regex ''11111111-1111-4111-8111-111111111111''" by code_simp
  have b: "''11111111-1111-4111-8111-111111111111'' \<in> thread_id ` set (threads (db small_world))"
    by (simp add: small_world_def first_thread_def)
  have c: "\<not> faults calm (ThreadFindOne ''11111111-1111-4111-8111-111111111111'')"
    and d: "\<not> faults calm (ThreadDelete ''11111111-1111-4111-8111-111111111111'')"
    by (simp_all add: calm_def)
  from deleteOne_twice [OF a b c d c] a b c d show ?thesis by blast
qed

section \<open>Paging\<close>

lemma round_exact: "\<bar>n\<bar> \<le> 2 ^ 53 \<Longrightarrow> round_to_double n = Num n"
  by (simp add: round_to_double_def)

lemma clamp_page_Num: "clamp_page (Num m) = Num (max 1 m)"
  by (simp add: clamp_page_def max_def)

lemma clamp_page_NaN: "clamp_page NaN = Num 1"
  by (simp add: clamp_page_def)

lemma clamp_page_NegInf: "clamp_page NegInf = Num 1"
  by (simp add: clamp_page_def)

lemma clamp_page_PosInf: "clamp_page PosInf = PosInf"
  by (simp add: clamp_page_def)

lemma clamp_page_at_least_1: "clamp_page n = Num p \<Longrightarrow> 1 \<le> p"
  by (cases n) (auto simp: clamp_page_Num clamp_page_NaN clamp_page_NegInf clamp_page_PosInf)

lemma digit_value_nonneg: "is_digit c \<Longrightarrow> 0 \<le> digit_value c"
  by (simp add: is_digit_def digit_value_def)

lemma foldl_digits_nonneg:
  "list_all is_digit ds \<Longrightarrow> 0 \<le> acc \<Longrightarrow>
     0 \<le> foldl (\<lambda>acc c. acc * 10 + digit_value c) acc ds"
proof (induction ds arbitrary: acc)
  case Nil
  then show ?case by simp
next
  case (Cons d ds)
  then have "0 \<le> acc * 10 + digit_value d"
    using digit_value_nonneg [of d] by simp
  with Cons show ?case by simp
qed

lemma digits_value_nonneg: "list_all is_digit ds \<Longrightarrow> 0 \<le> digits_value ds"
  unfolding digits_value_def by (rule foldl_digits_nonneg) simp_all

lemma digit_not_prefix:
  assumes "is_digit c"
  shows "\<not> is_white_space c" and "c \<noteq> CHR ''+''" and "c \<noteq> CHR ''-''"
  using assms by (auto simp: is_digit_def is_white_space_def)

lemma sign_not_white_space: "\<not> is_white_space CHR ''+''" "\<not> is_white_space CHR ''-''"
  by (simp_all add: is_white_space_def)

lemma takeWhile_digits:
  assumes "list_all is_digit digits" and "junk = [] \<or> \<not> is_digit (hd junk)"
  shows "takeWhile is_digit (digits @ junk) = digits"
proof (cases junk)
  case Nil
  then show ?thesis using assms(1) by (simp add: list_all_iff)
next
  case (Cons j js)
  then have "\<not> is_digit j" using assms(2) by simp
  then show ?thesis using assms(1) Cons
    by (simp add: list_all_iff takeWhile_append2)
qed

lemma parseInt_shape:
  assumes ws: "list_all is_white_space ws"
    and sn: "sg = [] \<or> sg = ''+'' \<or> sg = ''-''"
    and dg: "list_all is_digit digits"
    and jk: "junk = [] \<or> \<not> is_digit (hd junk)"
    and mx: "sg = [] \<and> digits = [] \<longrightarrow>
      junk = [] \<or> \<not> (is_white_space (hd junk) \<or> hd junk = CHR ''+'' \<or> hd junk = CHR ''-'')"
  shows "parseInt (ws @ sg @ digits @ junk) =
     (if digits = [] then NaN
      else round_to_double ((if sg = ''-'' then - 1 else 1) * digits_value digits))"
proof -
  let ?rest = "sg @ digits @ junk"
  have first: "?rest = [] \<or> \<not> is_white_space (hd ?rest)"
  proof (cases "sg = []")
    case False
    then show ?thesis using sn sign_not_white_space by auto
  next
    case True
    show ?thesis
    proof (cases digits)
      case Nil
      then show ?thesis using True mx by auto
    next
      case (Cons d ds)
      then have "is_digit d" using dg by simp
      then show ?thesis using True Cons digit_not_prefix(1) by simp
    qed
  qed
  have "dropWhile is_white_space (ws @ ?rest) = dropWhile is_white_space ?rest"
    using ws by (simp add: dropWhile_append list_all_iff)
  also have "\<dots> = ?rest"
    using first by (cases ?rest) auto
  finally have S: "dropWhile is_white_space (ws @ sg @ digits @ junk) = ?rest" .
  note tk = takeWhile_digits [OF dg jk]
  from sn show ?thesis
  proof (elim disjE)
    assume e: "sg = []"
    show ?thesis
    proof (cases digits)
      case Nil
      then have "junk = [] \<or> \<not> (hd junk = CHR ''+'' \<or> hd junk = CHR ''-'')"
        using e mx by auto
      moreover have "takeWhile is_digit junk = []"
        using jk by (cases junk) auto
      ultimately show ?thesis
        unfolding parseInt_def S Let_def by (auto simp: e Nil)
    next
      case (Cons d ds)
      then have "is_digit d" using dg by simp
      from digit_not_prefix(2,3) [OF this] tk show ?thesis
        unfolding parseInt_def S Let_def by (simp add: e Cons)
    qed
  next
    assume e: "sg = ''+''"
    show ?thesis
      unfolding parseInt_def S Let_def using tk by (simp add: e)
  next
    assume e: "sg = ''-''"
    show ?thesis
      unfolding parseInt_def S Let_def using tk by (simp add: e)
  qed
qed

lemma parseInt_digits_exact:
  assumes "digits \<noteq> []" and "list_all is_digit digits" and "digits_value digits \<le> 2 ^ 53"
  shows "parseInt digits = Num (digits_value digits)"
proof -
  have "parseInt ([] @ [] @ digits @ []) = round_to_double (1 * digits_value digits)"
    using assms(1) parseInt_shape [of "[]" "[]" digits "[]"] assms(2) by simp
  moreover have "\<bar>digits_value digits\<bar> \<le> 2 ^ 53"
    using assms(3) digits_value_nonneg [OF assms(2)] by simp
  ultimately show ?thesis by (simp add: round_exact)
qed

lemma order_created_at_desc_sorted:
  "sorted_wrt (\<lambda>a b. thread_created_at b \<le> thread_created_at a) (order_created_at_desc ts)"
proof -
  have "sorted (map (\<lambda>t. - thread_created_at t) (order_created_at_desc ts))"
    by (simp add: order_created_at_desc_def)
  then show ?thesis
    by (simp add: sorted_map)
qed

lemma sorted_wrt_take_drop:
  "sorted_wrt P xs \<Longrightarrow> sorted_wrt P (take n (drop k xs))"
  by (simp add: sorted_wrt_drop sorted_wrt_take)

lemma load_thread_created_at: "data_created_at (load_thread rs d t) = thread_created_at t"
  by (simp add: load_thread_def)

lemma load_thread_columns:
  "list_all2
     (\<lambda>d t. data_id d = thread_id t \<and> data_content d = thread_content t \<and>
            data_image d = thread_image t \<and> data_created_at d = thread_created_at t \<and>
            data_updated_at d = thread_updated_at t \<and>
            data_user d = select_user dd (thread_user t) \<and>
            data_likes d = map (select_like dd) (thread_likes t) \<and>
            data_replies d = length (thread_replies t))
     (map (load_thread length dd) ts) ts"
  by (induction ts) (simp_all add: load_thread_def)

lemma skip_exact:
  assumes "1 \<le> p" and "p * 10 \<le> 2 ^ 53"
  shows "js_minus (js_times (Num p) (Num 10)) (Num 10) = Num (p * 10 - 10)"
proof -
  have a: "\<bar>p * 10\<bar> \<le> 2 ^ 53" using assms by simp
  have b: "\<bar>p * 10 - 10\<bar> \<le> 2 ^ 53" using assms by simp
  show ?thesis by (simp add: round_exact [OF a] round_exact [OF b])
qed

lemma findAll_result:
  assumes "clamp_page (page_query q) = Num p" and "p * 10 \<le> 2 ^ 53"
    and "\<not> faults e (ThreadFind (Num 10) (Num (p * 10 - 10)))"
  shows "findAll e q w =
     (success 200 ''Find All Thread Success''
        (ThreadList (map (load_thread length (db w))
           (take 10 (drop (nat (p * 10 - 10)) (order_created_at_desc (threads (db w))))))),
      issue (ThreadFind (Num 10) (Num (p * 10 - 10))) w)"
proof -
  have p1: "1 \<le> p" using assms(1) by (rule clamp_page_at_least_1)
  note sk = skip_exact [OF p1 assms(2)]
  show ?thesis
    using assms(3) p1
    by (simp add: findAll_def ThreadRepository_find_def Let_def assms(1) sk
          del: js_times.simps js_minus.simps)
qed

lemma findAll_infinite:
  assumes "clamp_page (page_query q) = PosInf"
  shows "findAll e q w = (HandleError StoreFailure, issue (ThreadFind (Num 10) PosInf) w)"
  by (simp add: findAll_def ThreadRepository_find_def Let_def assms)

lemma findAll_zero_one: "findAll e (QString ''0'') w = findAll e (QString ''1'') w"
proof -
  have "parseInt ''0'' = Num 0" "parseInt ''1'' = Num 1" by code_simp+
  then have "clamp_page (page_query (QString ''0'')) = clamp_page (page_query (QString ''1''))"
    by (simp add: page_query_def clamp_page_Num)
  then show ?thesis by (simp add: findAll_def)
qed

text \<open>
  Claim C4. Let the clamped page be the number \<open>p\<close>, with \<open>p * 10\<close> at most \<open>2^53\<close>
  so that \<^verbatim>\<open>page * 10 - 10\<close> is exact, and let the query the handler issues be answered.
  Then \<open>p\<close> is at least 1 and \<^verbatim>\<open>findAll\<close> answers with status 200 and the Threads at
  positions \<open>(p - 1) * 10\<close> up to \<open>(p - 1) * 10 + 9\<close> of the Thread table ordered by
  \<^verbatim>\<open>created_at\<close> descending: at most 10 items, in descending order of creation time,
  each with the columns of its row, its owner's summary, its likes and the number of its
  replies; no table changes. An absent page gives page 1, a string of decimal digits of
  value at most \<open>2^53\<close> gives the larger of 1 and that value, and every number that is
  at most 1 is clamped to 1, so the pages \<^verbatim>\<open>"0"\<close> and \<^verbatim>\<open>"1"\<close> give the same answer on
  the same world. Beyond the bound the page is a rounded double; when it is an infinity
  so is \<^verbatim>\<open>skip\<close>, which the store refuses, and \<^verbatim>\<open>findAll\<close> hands that failure to the
  error handler.
\<close>

theorem findAll_page:
  assumes cp: "clamp_page (page_query q) = Num p"
    and bd: "p * 10 \<le> 2 ^ 53"
    and nf: "\<not> faults e (ThreadFind (Num 10) (Num ((p - 1) * 10)))"
  shows "1 \<le> p \<and>
     (\<exists>found items.
        found = take 10 (drop (nat ((p - 1) * 10)) (order_created_at_desc (threads (db w)))) \<and>
        items = map (load_thread length (db w)) found \<and>
        findAll e q w =
          (success 200 ''Find All Thread Success'' (ThreadList items),
           issue (ThreadFind (Num 10) (Num ((p - 1) * 10))) w) \<and>
        length items \<le> 10 \<and>
        list_all2
          (\<lambda>d t. data_id d = thread_id t \<and> data_content d = thread_content t \<and>
                 data_image d = thread_image t \<and> data_created_at d = thread_created_at t \<and>
                 data_updated_at d = thread_updated_at t \<and>
                 data_user d = select_user (db w) (thread_user t) \<and>
                 data_likes d = map (select_like (db w)) (thread_likes t) \<and>
                 data_replies d = length (thread_replies t))
          items found \<and>
        sorted_wrt (\<lambda>a b. data_created_at b \<le> data_created_at a) items) \<and>
     mset (order_created_at_desc (threads (db w))) = mset (threads (db w)) \<and>
     sorted_wrt (\<lambda>a b. thread_created_at b \<le> thread_created_at a)
       (order_created_at_desc (threads (db w))) \<and>
     db (snd (findAll e q w)) = db w \<and>
     clamp_page (page_query QUndefined) = Num 1 \<and>
     (digits \<noteq> [] \<and> list_all is_digit digits \<and> digits_value digits \<le> 2 ^ 53 \<longrightarrow>
        clamp_page (page_query (QString digits)) = Num (max 1 (digits_value digits))) \<and>
     (m \<le> 1 \<longrightarrow> clamp_page (Num m) = Num 1) \<and>
     findAll e (QString ''0'') w = findAll e (QString ''1'') w \<and>
     (clamp_page (page_query q') = PosInf \<longrightarrow>
        findAll e q' w = (HandleError StoreFailure, issue (ThreadFind (Num 10) PosInf) w))"
proof -
  have p1: "1 \<le> p" using cp by (rule clamp_page_at_least_1)
  have off: "p * 10 - 10 = (p - 1) * 10" by (simp add: algebra_simps)
  have nf': "\<not> faults e (ThreadFind (Num 10) (Num (p * 10 - 10)))"
    unfolding off by (rule nf)
  let ?found = "take 10 (drop (nat ((p - 1) * 10)) (order_created_at_desc (threads (db w))))"
  let ?items = "map (load_thread length (db w)) ?found"
  have r: "findAll e q w =
      (success 200 ''Find All Thread Success'' (ThreadList ?items),
       issue (ThreadFind (Num 10) (Num ((p - 1) * 10))) w)"
    using findAll_result [OF cp bd nf', of w] unfolding off .
  have len: "length ?items \<le> 10" by simp
  have cols: "list_all2
      (\<lambda>d t. data_id d = thread_id t \<and> data_content d = thread_content t \<and>
             data_image d = thread_image t \<and> data_created_at d = thread_created_at t \<and>
             data_updated_at d = thread_updated_at t \<and>
             data_user d = select_user (db w) (thread_user t) \<and>
             data_likes d = map (select_like (db w)) (thread_likes t) \<and>
             data_replies d = length (thread_replies t))
      ?items ?found"
    by (rule load_thread_columns)
  have srt: "sorted_wrt (\<lambda>a b. data_created_at b \<le> data_created_at a) ?items"
    using sorted_wrt_take_drop [OF order_created_at_desc_sorted, of 10 "nat ((p - 1) * 10)" "threads (db w)"]
    by (simp add: sorted_wrt_map load_thread_created_at)
  have page: "\<exists>found items.
        found = take 10 (drop (nat ((p - 1) * 10)) (order_created_at_desc (threads (db w)))) \<and>
        items = map (load_thread length (db w)) found \<and>
        findAll e q w =
          (success 200 ''Find All Thread Success'' (ThreadList items),
           issue (ThreadFind (Num 10) (Num ((p - 1) * 10))) w) \<and>
        length items \<le> 10 \<and>
        list_all2
          (\<lambda>d t. data_id d = thread_id t \<and> data_content d = thread_content t \<and>
                 data_image d = thread_image t \<and> data_created_at d = thread_created_at t \<and>
                 data_updated_at d = thread_updated_at t \<and>
                 data_user d = select_user (db w) (thread_user t) \<and>
                 data_likes d = map (select_like (db w)) (thread_likes t) \<and>
                 data_replies d = length (thread_replies t))
          items found \<and>
        sorted_wrt (\<lambda>a b. data_created_at b \<le> data_created_at a) items"
    using r len cols srt by blast
  have perm: "mset (order_created_at_desc (threads (db w))) = mset (threads (db w))"
    by (simp add: order_created_at_desc_def)
  have frame: "db (snd (findAll e q w)) = db w"
    by (simp only: r snd_conv) (simp add: issue_def)
  have dflt: "clamp_page (page_query QUndefined) = Num 1"
    by (simp add: page_query_def clamp_page_Num)
  have dig: "digits \<noteq> [] \<and> list_all is_digit digits \<and> digits_value digits \<le> 2 ^ 53 \<longrightarrow>
        clamp_page (page_query (QString digits)) = Num (max 1 (digits_value digits))"
    using parseInt_digits_exact [of digits]
    by (auto simp: page_query_def clamp_page_Num)
  have low: "m \<le> 1 \<longrightarrow> clamp_page (Num m) = Num 1"
    by (simp add: clamp_page_Num)
  have inf: "clamp_page (page_query q') = PosInf \<longrightarrow>
        findAll e q' w = (HandleError StoreFailure, issue (ThreadFind (Num 10) PosInf) w)"
    using findAll_infinite by blast
  show ?thesis
    apply (intro conjI)
    apply (rule p1)
    apply (rule page)
    apply (rule perm)
    apply (rule order_created_at_desc_sorted)
    apply (rule frame)
    apply (rule dflt)
    apply (rule dig)
    apply (rule low)
    apply (rule findAll_zero_one)
    apply (rule inf)
    done
qed

text \<open>Claim C4 at page \<^verbatim>\<open>"2"\<close> of the twelve-thread store: the offset is 10 and the
  two oldest threads are returned, the later one first.\<close>

theorem findAll_page_witness:
  "clamp_page (page_query (QString ''2'')) = Num 2 \<and>
   (2::int) * 10 \<le> 2 ^ 53 \<and>
   \<not> faults calm (ThreadFind (Num 10) (Num ((2 - 1) * 10))) \<and>
   findAll calm (QString ''2'') twelve_threads =
     (success 200 ''Find All Thread Success''
        (ThreadList
          [\<lparr>data_id = ''00000000-0000-4000-8000-000000000002'',
            data_content = JStr ''post 02'', data_image = JNull, data_created_at = 2,
            data_updated_at = 2,
            data_user = Some \<lparr>summary_id = ''u1'', summary_username = ''ann'',
                              summary_fullname = ''Ann Lee'', summary_profile_picture = JNull\<rparr>,
            data_likes = [], data_replies = 1\<rparr>,
           \<lparr>data_id = ''00000000-0000-4000-8000-000000000001'',
            data_content = JStr ''post 01'', data_image = JNull, data_created_at = 1,
            data_updated_at = 1,
            data_user = Some \<lparr>summary_id = ''u1'', summary_username = ''ann'',
                              summary_fullname = ''Ann Lee'', summary_profile_picture = JNull\<rparr>,
            data_likes = [], data_replies = 0\<rparr>]),
      issue (ThreadFind (Num 10) (Num 10)) twelve_threads)"
proof -
  have cp: "clamp_page (page_query (QString ''2'')) = Num 2" by code_simp
  have bd: "(2::int) * 10 \<le> 2 ^ 53" by simp
  have nf: "\<not> faults calm (ThreadFind (Num 10) (Num ((2 - 1) * 10)))"
    by (simp add: calm_def)
  have found: "take 10 (drop (nat ((2 - 1) * 10))
      (order_created_at_desc (threads (db twelve_threads)))) =
      [numbered_thread ''02'' 2 [a_reply], numbered_thread ''01'' 1 []]"
    by code_simp
  have items: "map (load_thread length (db twelve_threads))
      [numbered_thread ''02'' 2 [a_reply], numbered_thread ''01'' 1 []] =
      [\<lparr>data_id = ''00000000-0000-4000-8000-000000000002'',
        data_content = JStr ''post 02'', data_image = JNull, data_created_at = 2,
            data_updated_at = 2,
        data_user = Some \<lparr>summary_id = ''u1'', summary_username = ''ann'',
                          summary_fullname = ''Ann Lee'', summary_profile_picture = JNull\<rparr>,
        data_likes = [], data_replies = 1\<rparr>,
       \<lparr>data_id = ''00000000-0000-4000-8000-000000000001'',
        data_content = JStr ''post 01'', data_image = JNull, data_created_at = 1,
            data_updated_at = 1,
        data_user = Some \<lparr>summary_id = ''u1'', summary_username = ''ann'',
                          summary_fullname = ''Ann Lee'', summary_profile_picture = JNull\<rparr>,
        data_likes = [], data_replies = 0\<rparr>]"
    by code_simp
  from findAll_page [OF cp bd nf, of twelve_threads]
  have "findAll calm (QString ''2'') twelve_threads =
      (success 200 ''Find All Thread Success''
         (ThreadList (map (load_thread length (db twelve_threads))
            (take 10 (drop (nat ((2 - 1) * 10))
               (order_created_at_desc (threads (db twelve_threads))))))),
       issue (ThreadFind (Num 10) (Num ((2 - 1) * 10))) twelve_threads)"
    by blast
  then have "findAll calm (QString ''2'') twelve_threads =
      (success 200 ''Find All Thread Success''
         (ThreadList (map (load_thread length (db twelve_threads))
            [numbered_thread ''02'' 2 [a_reply], numbered_thread ''01'' 1 []])),
       issue (ThreadFind (Num 10) (Num 10)) twelve_threads)"
    unfolding found by simp
  with cp bd nf show ?thesis unfolding items by blast
qed

text \<open>
  Claim C10, as amended. The page is \<^verbatim>\<open>parseInt\<close> of the query string, clamped. An
  absent page, an array or an object gives page 1. A string for which \<^verbatim>\<open>parseInt\<close>
  yields \<^verbatim>\<open>NaN\<close> gives page 1, because the one comparison \<^verbatim>\<open>page > 1\<close> of the clamp is
  false for \<^verbatim>\<open>NaN\<close>. And \<^verbatim>\<open>parseInt\<close> reads a string as white space, then at most one
  sign, then decimal digits, then anything that does not start with a digit: without
  digits it yields \<^verbatim>\<open>NaN\<close>; with digits it yields their value, negated after a minus
  sign and rounded to a double, which is the value itself when the digits stand for at
  most \<open>2^53\<close>, and the page is then that value when it exceeds 1 (\<^verbatim>\<open>"3abc"\<close> gives
  page 3). Above \<open>2^53\<close> the rounding shows: \<^verbatim>\<open>"9007199254740993"\<close> parses as
  9007199254740992, and a one followed by 309 zeros as an infinity.
\<close>

theorem page_parsing:
  "clamp_page (page_query QUndefined) = Num 1 \<and>
   clamp_page (page_query (QArray xs)) = Num 1 \<and>
   clamp_page (page_query (QObject kvs)) = Num 1 \<and>
   page_query (QString s) = parseInt s \<and>
   (parseInt s = NaN \<longrightarrow> clamp_page (page_query (QString s)) = Num 1) \<and>
   (list_all is_white_space ws \<and> (sg = [] \<or> sg = ''+'' \<or> sg = ''-'') \<and>
    list_all is_digit digits \<and> (junk = [] \<or> \<not> is_digit (hd junk)) \<and>
    (sg = [] \<and> digits = [] \<longrightarrow>
       junk = [] \<or> \<not> (is_white_space (hd junk) \<or> hd junk = CHR ''+'' \<or> hd junk = CHR ''-''))
    \<longrightarrow>
      parseInt (ws @ sg @ digits @ junk) =
        (if digits = [] then NaN
         else round_to_double ((if sg = ''-'' then - 1 else 1) * digits_value digits)) \<and>
      clamp_page (page_query (QString (ws @ sg @ digits @ junk))) =
        (if digits = [] then Num 1
         else clamp_page
           (round_to_double ((if sg = ''-'' then - 1 else 1) * digits_value digits))) \<and>
      (digits \<noteq> [] \<and> digits_value digits \<le> 2 ^ 53 \<longrightarrow>
         parseInt (ws @ sg @ digits @ junk) =
           Num ((if sg = ''-'' then - 1 else 1) * digits_value digits) \<and>
         clamp_page (page_query (QString (ws @ sg @ digits @ junk))) =
           Num (max 1 ((if sg = ''-'' then - 1 else 1) * digits_value digits)))) \<and>
   clamp_page (page_query (QString ''3abc'')) = Num 3 \<and>
   parseInt ''9007199254740993'' = Num 9007199254740992 \<and>
   parseInt (CHR ''1'' # replicate 309 CHR ''0'') = PosInf \<and>
   clamp_page n = (if js_gt n (Num 1) then n else Num 1) \<and>
   \<not> js_gt NaN (Num 1)"
proof -
  have a: "clamp_page (page_query QUndefined) = Num 1"
    "clamp_page (page_query (QArray xs)) = Num 1"
    "clamp_page (page_query (QObject kvs)) = Num 1"
    by (simp_all add: page_query_def clamp_page_def)
  have b: "page_query (QString s) = parseInt s"
    by (simp add: page_query_def)
  have c: "parseInt s = NaN \<longrightarrow> clamp_page (page_query (QString s)) = Num 1"
    by (simp add: b clamp_page_NaN)
  have d: "list_all is_white_space ws \<and> (sg = [] \<or> sg = ''+'' \<or> sg = ''-'') \<and>
    list_all is_digit digits \<and> (junk = [] \<or> \<not> is_digit (hd junk)) \<and>
    (sg = [] \<and> digits = [] \<longrightarrow>
       junk = [] \<or> \<not> (is_white_space (hd junk) \<or> hd junk = CHR ''+'' \<or> hd junk = CHR ''-''))
    \<longrightarrow>
      parseInt (ws @ sg @ digits @ junk) =
        (if digits = [] then NaN
         else round_to_double ((if sg = ''-'' then - 1 else 1) * digits_value digits)) \<and>
      clamp_page (page_query (QString (ws @ sg @ digits @ junk))) =
        (if digits = [] then Num 1
         else clamp_page
           (round_to_double ((if sg = ''-'' then - 1 else 1) * digits_value digits))) \<and>
      (digits \<noteq> [] \<and> digits_value digits \<le> 2 ^ 53 \<longrightarrow>
         parseInt (ws @ sg @ digits @ junk) =
           Num ((if sg = ''-'' then - 1 else 1) * digits_value digits) \<and>
         clamp_page (page_query (QString (ws @ sg @ digits @ junk))) =
           Num (max 1 ((if sg = ''-'' then - 1 else 1) * digits_value digits)))"
  proof (intro impI, elim conjE)
    assume h: "list_all is_white_space ws" "sg = [] \<or> sg = ''+'' \<or> sg = ''-''"
      "list_all is_digit digits" "junk = [] \<or> \<not> is_digit (hd junk)"
      "sg = [] \<and> digits = [] \<longrightarrow>
       junk = [] \<or> \<not> (is_white_space (hd junk) \<or> hd junk = CHR ''+'' \<or> hd junk = CHR ''-'')"
    let ?v = "(if sg = ''-'' then - 1 else 1) * digits_value digits"
    note p = parseInt_shape [OF h]
    have q: "page_query (QString (ws @ sg @ digits @ junk)) = parseInt (ws @ sg @ digits @ junk)"
      by (simp add: page_query_def)
    have c1: "clamp_page (page_query (QString (ws @ sg @ digits @ junk))) =
        (if digits = [] then Num 1 else clamp_page (round_to_double ?v))"
      unfolding q p by (simp add: clamp_page_NaN)
    have ex: "round_to_double ?v = Num ?v" if "digits_value digits \<le> 2 ^ 53"
    proof -
      have "\<bar>?v\<bar> \<le> 2 ^ 53"
        using that digits_value_nonneg [OF h(3)] by simp
      then show ?thesis by (rule round_exact)
    qed
    have c2: "digits \<noteq> [] \<and> digits_value digits \<le> 2 ^ 53 \<longrightarrow>
         parseInt (ws @ sg @ digits @ junk) = Num ?v \<and>
         clamp_page (page_query (QString (ws @ sg @ digits @ junk))) = Num (max 1 ?v)"
      using ex unfolding c1 p by (simp add: clamp_page_Num)
    from p c1 c2 show "parseInt (ws @ sg @ digits @ junk) =
        (if digits = [] then NaN else round_to_double ?v) \<and>
      clamp_page (page_query (QString (ws @ sg @ digits @ junk))) =
        (if digits = [] then Num 1 else clamp_page (round_to_double ?v)) \<and>
      (digits \<noteq> [] \<and> digits_value digits \<le> 2 ^ 53 \<longrightarrow>
         parseInt (ws @ sg @ digits @ junk) = Num ?v \<and>
         clamp_page (page_query (QString (ws @ sg @ digits @ junk))) = Num (max 1 ?v))"
      by blast
  qed
  have f: "clamp_page (page_query (QString ''3abc'')) = Num 3"
    by code_simp
  have r1: "parseInt ''9007199254740993'' = Num 9007199254740992"
    by code_simp
  have r2: "parseInt (CHR ''1'' # replicate 309 CHR ''0'') = PosInf"
    by code_simp
  have g: "clamp_page n = (if js_gt n (Num 1) then n else Num 1)"
    by (simp add: clamp_page_def)
  have h: "\<not> js_gt NaN (Num 1)" by simp
  from a b c d f r1 r2 g h show ?thesis by blast
qed

text \<open>Claim C10, as amended, at \<^verbatim>\<open>"abc"\<close> and at \<^verbatim>\<open>" +12px"\<close>.\<close>

theorem page_parsing_witness:
  "parseInt ''abc'' = NaN \<and> clamp_page (page_query (QString ''abc'')) = Num 1 \<and>
   list_all is_white_space '' '' \<and> list_all is_digit ''12'' \<and> \<not> is_digit (hd ''px'') \<and>
   digits_value ''12'' = 12 \<and> digits_value ''12'' \<le> 2 ^ 53 \<and>
   clamp_page (page_query (QString ('' '' @ ''+'' @ ''12'' @ ''px''))) = Num 12"
proof -
  note pp = page_parsing [of "[]" "[]" "''abc''" "'' ''" "''+''" "''12''" "''px''" NaN]
  have a: "parseInt ''abc'' = NaN" by code_simp
  have b: "list_all is_white_space '' ''" "list_all is_digit ''12''" "\<not> is_digit (hd ''px'')"
    by code_simp+
  have c: "digits_value ''12'' = 12" by code_simp
  have e: "digits_value ''12'' \<le> 2 ^ 53" by (simp add: c)
  from pp a have c1: "clamp_page (page_query (QString ''abc'')) = Num 1" by blast
  have hyp: "list_all is_white_space '' '' \<and> (''+'' = [] \<or> ''+'' = ''+'' \<or> ''+'' = ''-'') \<and>
    list_all is_digit ''12'' \<and> (''px'' = [] \<or> \<not> is_digit (hd ''px'')) \<and>
    (''+'' = [] \<and> ''12'' = [] \<longrightarrow>
       ''px'' = [] \<or>
       \<not> (is_white_space (hd ''px'') \<or> hd ''px'' = CHR ''+'' \<or> hd ''px'' = CHR ''-''))"
    using b by simp
  have ne: "''12'' \<noteq> [] \<and> digits_value ''12'' \<le> 2 ^ 53" using e by simp
  from pp hyp ne
  have "clamp_page (page_query (QString ('' '' @ ''+'' @ ''12'' @ ''px''))) =
      Num (max 1 ((if ''+'' = ''-'' then - 1 else 1) * digits_value ''12''))"
    by blast
  then have c2: "clamp_page (page_query (QString ('' '' @ ''+'' @ ''12'' @ ''px''))) = Num 12"
    by (simp add: c del: append.simps)
  from a c1 b c e c2 show ?thesis by blast
qed

text \<open>
  Claim C10 as stated fails for a string whose digits come after a sign or a space: it
  does not start with a digit, \<^verbatim>\<open>parseInt\<close> does not yield \<^verbatim>\<open>NaN\<close>, and the page is 7,
  not 1.
\<close>

theorem page_sign_and_space_counterexample:
  "\<not> is_digit (hd ''+7'') \<and> clamp_page (page_query (QString ''+7'')) = Num 7 \<and>
   \<not> is_digit (hd '' 7'') \<and> clamp_page (page_query (QString '' 7'')) = Num 7"
  by code_simp

section \<open>Adding a thread\<close>

lemma success_not_error [simp]:
  "success n m d \<noteq> HandleError err" "HandleError err \<noteq> success n m d"
  by (simp_all add: success_def)

lemma find_append_fresh:
  "k \<notin> f ` set xs \<Longrightarrow> f x = k \<Longrightarrow> find (\<lambda>y. f y = k) (xs @ [x]) = Some x"
  by (induction xs) auto

lemma list_ex_image: "list_ex (\<lambda>x. f x = k) xs = (k \<in> f ` set xs)"
  by (auto simp: list_ex_iff)

lemma add_success_fresh:
  assumes ok: "fst (add e authId body w) = success 201 ''Add Thread Success'' NoData"
    and fresh: "uuidv4 e \<notin> thread_id ` set (threads (db w))"
  shows "\<exists>u. find (\<lambda>u. user_id u = authId) (users (db w)) = Some u \<and>
             threads (db (snd (add e authId body w))) =
               threads (db w) @ [insert_row e (new_thread e body u) u] \<and>
             users (db (snd (add e authId body w))) = users (db w)"
proof (cases "find (\<lambda>u. user_id u = authId) (users (db w))")
  case None
  then show ?thesis using ok
    by (simp add: add_def UserRepository_findOne_def Let_def split: if_splits)
next
  case (Some u)
  have nex: "\<not> list_ex (\<lambda>t. thread_id t = uuidv4 e) (threads (db w))"
    using fresh by (simp add: list_ex_image)
  show ?thesis using ok Some nex
    by (simp add: add_def UserRepository_findOne_def ThreadRepository_save_def
          UploadRepository_delete_def issue_def Let_def new_thread_def
          split: if_splits)
qed

text \<open>
  Claim C5, as amended. After an \<^verbatim>\<open>add\<close> that answered with status 201, \<^verbatim>\<open>findOne\<close> on
  the identifier that \<^verbatim>\<open>add\<close> generated answers with status 200 and a Thread whose
  \<^verbatim>\<open>content\<close> is the content supplied to \<^verbatim>\<open>add\<close> (\<^verbatim>\<open>null\<close> when none was supplied) and
  whose \<^verbatim>\<open>image\<close> is the image supplied when that image is truthy, and \<^verbatim>\<open>null\<close> when
  it is absent, \<^verbatim>\<open>null\<close>, or empty. The identifier comes from \<^verbatim>\<open>uuidv4()\<close>: it is taken
  to match the pattern and to be carried by no Thread already stored; the lookup of
  \<^verbatim>\<open>findOne\<close> is taken to answer.
\<close>

theorem add_then_findOne:
  assumes "fst (add e authId body w) = success 201 ''Add Thread Success'' NoData"
    and "regex_test uuid_regex (uuidv4 e)"
    and "uuidv4 e \<notin> thread_id ` set (threads (db w))"
    and "\<not> faults e' (ThreadFindOne (uuidv4 e))"
  shows "\<exists>d. fst (findOne e' (uuidv4 e) (snd (add e authId body w))) =
               success 200 ''Find One Thread Success'' (ThreadData d) \<and>
             data_id d = uuidv4 e \<and>
             data_content d = (if content body = JUndefined then JNull else content body) \<and>
             data_image d = (if truthy (image body) then image body else JNull)"
proof -
  let ?w' = "snd (add e authId body w)"
  from add_success_fresh [OF assms(1,3)] obtain u where
    th: "threads (db ?w') = threads (db w) @ [insert_row e (new_thread e body u) u]"
    by blast
  let ?row = "insert_row e (new_thread e body u) u"
  have id: "thread_id ?row = uuidv4 e"
    by (simp add: insert_row_def new_thread_def)
  have f: "find (\<lambda>t. thread_id t = uuidv4 e) (threads (db ?w')) = Some ?row"
    unfolding th using find_append_fresh [OF assms(3) id] .
  let ?d = "load_thread (map (select_reply (db ?w'))) (db ?w') ?row"
  have r: "fst (findOne e' (uuidv4 e) ?w') =
      success 200 ''Find One Thread Success'' (ThreadData ?d)"
    using assms(2,4) f
    by (simp add: findOne_def ThreadRepository_findOne_def)
  have "data_id ?d = uuidv4 e"
    and "data_content ?d = (if content body = JUndefined then JNull else content body)"
    and "data_image ?d = (if truthy (image body) then image body else JNull)"
    by (auto simp: load_thread_def insert_row_def new_thread_def)
  with r show ?thesis by blast
qed

text \<open>Claim C5, as amended, at a request with a non-empty image.\<close>

theorem add_then_findOne_witness:
  "fst (add calm ''u1'' \<lparr>content = JStr ''hello'', image = JStr ''b.png'', uploadId = JNum 3\<rparr>
         small_world) = success 201 ''Add Thread Success'' NoData \<and>
   regex_test uuid_regex (uuidv4 calm) \<and>
   uuidv4 calm \<notin> thread_id ` set (threads (db small_world)) \<and>
   \<not> faults calm (ThreadFindOne (uuidv4 calm)) \<and>
   (\<exists>d. fst (findOne calm (uuidv4 calm)
               (snd (add calm ''u1''
                 \<lparr>content = JStr ''hello'', image = JStr ''b.png'', uploadId = JNum 3\<rparr>
                 small_world))) =
           success 200 ''Find One Thread Success'' (ThreadData d) \<and>
        data_content d = JStr ''hello'' \<and> data_image d = JStr ''b.png'')"
proof -
  let ?body = "\<lparr>content = JStr ''hello'', image = JStr ''b.png'', uploadId = JNum 3\<rparr>"
  have a: "fst (add calm ''u1'' ?body small_world) = success 201 ''Add Thread Success'' NoData"
    by code_simp
  have b: "regex_test uuid_regex (uuidv4 calm)" by code_simp
  have c: "uuidv4 calm \<notin> thread_id ` set (threads (db small_world))"
    by (simp add: calm_def small_world_def first_thread_def)
  have d: "\<not> faults calm (ThreadFindOne (uuidv4 calm))"
    by (simp add: calm_def)
  from add_then_findOne [OF a b c d] a b c d show ?thesis by auto
qed

text \<open>
  Claim C5 as stated fails for an image that is the empty string: \<^verbatim>\<open>add\<close> succeeds,
  the guard \<^verbatim>\<open>if (image)\<close> leaves the property unassigned, and \<^verbatim>\<open>findOne\<close> returns a
  Thread whose \<^verbatim>\<open>image\<close> is \<^verbatim>\<open>null\<close>, not the empty string that was supplied.
\<close>

theorem add_empty_image_counterexample:
  "fst (add calm ''u1'' \<lparr>content = JStr ''hello'', image = JStr '''', uploadId = JUndefined\<rparr>
         small_world) = success 201 ''Add Thread Success'' NoData \<and>
   fst (findOne calm (uuidv4 calm)
         (snd (add calm ''u1''
                \<lparr>content = JStr ''hello'', image = JStr '''', uploadId = JUndefined\<rparr>
                small_world))) =
     success 200 ''Find One Thread Success''
       (ThreadData
         \<lparr>data_id = ''00000000-0000-4000-8000-000000000000'',
          data_content = JStr ''hello'', data_image = JNull, data_created_at = 5,
          data_updated_at = 5,
          data_user = Some \<lparr>summary_id = ''u1'', summary_username = ''ann'',
                            summary_fullname = ''Ann Lee'', summary_profile_picture = JNull\<rparr>,
          data_likes = [], data_replies = []\<rparr>) \<and>
   JNull \<noteq> JStr ''''"
  by code_simp

subsection \<open>The staged upload\<close>

lemma issued_by_issue: "issued_by w (issue op w) = [op]"
  by (simp add: issued_by_def issue_def)

lemma add_run:
  "(\<exists>err. add e authId body w = (HandleError err, issue (UserFindOne authId) w) \<and>
          (faults e (UserFindOne authId) \<or>
           find (\<lambda>u. user_id u = authId) (users (db w)) = None)) \<or>
   (\<exists>u w2 r.
      find (\<lambda>u. user_id u = authId) (users (db w)) = Some u \<and>
      \<not> faults e (UserFindOne authId) \<and>
      ThreadRepository_save e (new_thread e body u) (issue (UserFindOne authId) w) = (r, w2) \<and>
      ((\<exists>err. r = Inl err \<and> add e authId body w = (HandleError err, w2)) \<or>
       (r = Inr () \<and> \<not> truthy (uploadId body) \<and>
        add e authId body w = (success 201 ''Add Thread Success'' NoData, w2)) \<or>
       (r = Inr () \<and> truthy (uploadId body) \<and>
        add e authId body w =
          (case UploadRepository_delete e (uploadId body) w2 of
             (Inl err, w3) \<Rightarrow> (HandleError err, w3)
           | (Inr _, w3) \<Rightarrow> (success 201 ''Add Thread Success'' NoData, w3)))))"
proof (cases "faults e (UserFindOne authId)")
  case True
  then show ?thesis by (simp add: add_def UserRepository_findOne_def)
next
  case nf: False
  show ?thesis
  proof (cases "find (\<lambda>u. user_id u = authId) (users (db w))")
    case None
    then show ?thesis using nf by (simp add: add_def UserRepository_findOne_def)
  next
    case (Some u)
    obtain r w2 where s:
      "ThreadRepository_save e (new_thread e body u) (issue (UserFindOne authId) w) = (r, w2)"
      by (cases "ThreadRepository_save e (new_thread e body u) (issue (UserFindOne authId) w)")
    show ?thesis
    proof (cases r)
      case (Inl err)
      then show ?thesis using nf Some s
        by (simp add: add_def UserRepository_findOne_def)
    next
      case (Inr x)
      then show ?thesis using nf Some s
        by (simp add: add_def UserRepository_findOne_def)
    qed
  qed
qed

lemma update_row_id [simp]: "thread_id (update_row e ent t) = thread_id t"
  by (simp add: update_row_def)

lemma save_trace:
  "ThreadRepository_save e ent w1 = (r, w2) \<Longrightarrow> trace w2 = trace w1 @ [ThreadSave ent]"
  by (auto simp: ThreadRepository_save_def issue_def Let_def split: if_splits option.splits)

lemma save_persists:
  assumes "ThreadRepository_save e ent w1 = (Inr (), w2)"
  shows "entity_id ent \<in> thread_id ` set (threads (db w2))"
proof (cases "list_ex (\<lambda>t. thread_id t = entity_id ent) (threads (db w1))")
  case True
  then obtain t where t: "t \<in> set (threads (db w1))" "thread_id t = entity_id ent"
    by (auto simp: list_ex_iff)
  have "threads (db w2) =
      map (\<lambda>t. if thread_id t = entity_id ent then update_row e ent t else t) (threads (db w1))"
    using assms True
    by (auto simp: ThreadRepository_save_def issue_def Let_def split: if_splits)
  then have "update_row e ent t \<in> set (threads (db w2))"
    using t by force
  then show ?thesis using t(2)
    by (metis image_eqI update_row_id)
next
  case False
  then obtain u where "threads (db w2) = threads (db w1) @ [insert_row e ent u]"
    using assms
    by (auto simp: ThreadRepository_save_def issue_def Let_def split: if_splits option.splits)
  then show ?thesis by (simp add: insert_row_def)
qed

lemma upload_delete_run:
  "UploadRepository_delete e u w2 =
     (if faults e (UploadDelete u) then (Inl StoreFailure, issue (UploadDelete u) w2)
      else (Inr (),
            (issue (UploadDelete u) w2)
              \<lparr>db := (db w2)\<lparr>uploads := filter (\<lambda>x. upload_id x \<noteq> u) (uploads (db w2))\<rparr>\<rparr>))"
  by (simp add: UploadRepository_delete_def Let_def)

text \<open>
  Claim C7. Among the calls one \<^verbatim>\<open>add\<close> issues there is at most one Upload deletion,
  and it is for \<^verbatim>\<open>uploadId\<close>. When \<^verbatim>\<open>uploadId\<close> is absent (or otherwise falsy) none is
  issued. When one is issued, the calls were the user lookup, the save of the new Thread
  and then the deletion: the save had succeeded, and a Thread with the generated
  identifier is in the store after \<^verbatim>\<open>add\<close>, the Thread table being the one the save
  left. If the deletion fails, the tables are exactly those the save left, so the Thread
  write stands, and \<^verbatim>\<open>add\<close> hands the store's failure to the error handler; if it
  succeeds, \<^verbatim>\<open>add\<close> answers with status 201 and no Upload with that key remains.
\<close>

theorem add_upload_deletion:
  "(upload_deletes (issued_by w (snd (add e authId body w))) = [] \<or>
    upload_deletes (issued_by w (snd (add e authId body w))) = [uploadId body]) \<and>
   (\<not> truthy (uploadId body) \<longrightarrow>
      upload_deletes (issued_by w (snd (add e authId body w))) = []) \<and>
   (upload_deletes (issued_by w (snd (add e authId body w))) = [uploadId body] \<longrightarrow>
      (\<exists>u w2.
         find (\<lambda>u. user_id u = authId) (users (db w)) = Some u \<and>
         ThreadRepository_save e (new_thread e body u) (issue (UserFindOne authId) w) =
           (Inr (), w2) \<and>
         issued_by w (snd (add e authId body w)) =
           [UserFindOne authId, ThreadSave (new_thread e body u), UploadDelete (uploadId body)] \<and>
         threads (db (snd (add e authId body w))) = threads (db w2) \<and>
         uuidv4 e \<in> thread_id ` set (threads (db (snd (add e authId body w)))) \<and>
         (faults e (UploadDelete (uploadId body)) \<longrightarrow>
            fst (add e authId body w) = HandleError StoreFailure \<and>
            db (snd (add e authId body w)) = db w2) \<and>
         (\<not> faults e (UploadDelete (uploadId body)) \<longrightarrow>
            fst (add e authId body w) = success 201 ''Add Thread Success'' NoData \<and>
            uploadId body \<notin> upload_id ` set (uploads (db (snd (add e authId body w)))))))"
proof -
  let ?R = "add e authId body w"
  let ?ops = "issued_by w (snd ?R)"
  let ?w1 = "issue (UserFindOne authId) w"
  consider
    (early) err where "?R = (HandleError err, ?w1)"
  | (save_failed) u w2 err where
      "ThreadRepository_save e (new_thread e body u) ?w1 = (Inl err, w2)"
      "?R = (HandleError err, w2)"
  | (no_upload) u w2 where
      "ThreadRepository_save e (new_thread e body u) ?w1 = (Inr (), w2)"
      "\<not> truthy (uploadId body)"
      "?R = (success 201 ''Add Thread Success'' NoData, w2)"
  | (upload) u w2 where
      "find (\<lambda>u. user_id u = authId) (users (db w)) = Some u"
      "ThreadRepository_save e (new_thread e body u) ?w1 = (Inr (), w2)"
      "truthy (uploadId body)"
      "?R = (case UploadRepository_delete e (uploadId body) w2 of
               (Inl err, w3) \<Rightarrow> (HandleError err, w3)
             | (Inr _, w3) \<Rightarrow> (success 201 ''Add Thread Success'' NoData, w3))"
    using add_run [of e authId body w] by blast
  then show ?thesis
  proof cases
    case early
    then have "?ops = [UserFindOne authId]"
      by (simp add: issued_by_issue)
    then show ?thesis by simp
  next
    case save_failed
    from save_trace [OF save_failed(1)] have "?ops = [UserFindOne authId, ThreadSave (new_thread e body u)]"
      by (simp add: save_failed(2) issued_by_def issue_def)
    then show ?thesis by simp
  next
    case no_upload
    from save_trace [OF no_upload(1)] have "?ops = [UserFindOne authId, ThreadSave (new_thread e body u)]"
      by (simp add: no_upload(3) issued_by_def issue_def)
    then show ?thesis using no_upload(2) by auto
  next
    case upload
    note tr = save_trace [OF upload(2)]
    note ps = save_persists [OF upload(2)]
    have id: "entity_id (new_thread e body u) = uuidv4 e" by (simp add: new_thread_def)
    show ?thesis
    proof (cases "faults e (UploadDelete (uploadId body))")
      case True
      then have R: "?R = (HandleError StoreFailure, issue (UploadDelete (uploadId body)) w2)"
        by (simp add: upload(4) upload_delete_run)
      have ops: "?ops = [UserFindOne authId, ThreadSave (new_thread e body u),
          UploadDelete (uploadId body)]"
        by (simp add: R issued_by_def issue_def tr)
      have "threads (db (snd ?R)) = threads (db w2)" "db (snd ?R) = db w2"
        by (simp_all add: R issue_def)
      moreover have "uuidv4 e \<in> thread_id ` set (threads (db (snd ?R)))"
        using ps by (simp add: R issue_def id)
      ultimately show ?thesis
        using True upload(1,2,3) ops R by auto
    next
      case False
      then have R: "?R = (success 201 ''Add Thread Success'' NoData,
          (issue (UploadDelete (uploadId body)) w2)
            \<lparr>db := (db w2)\<lparr>uploads :=
               filter (\<lambda>x. upload_id x \<noteq> uploadId body) (uploads (db w2))\<rparr>\<rparr>)"
        by (simp add: upload(4) upload_delete_run)
      have ops: "?ops = [UserFindOne authId, ThreadSave (new_thread e body u),
          UploadDelete (uploadId body)]"
        by (simp add: R issued_by_def issue_def tr)
      have "threads (db (snd ?R)) = threads (db w2)"
        by (simp add: R issue_def)
      moreover have "uuidv4 e \<in> thread_id ` set (threads (db (snd ?R)))"
        using ps by (simp add: R issue_def id)
      moreover have "uploadId body \<notin> upload_id ` set (uploads (db (snd ?R)))"
        by (auto simp: R issue_def)
      ultimately show ?thesis
        using False upload(1,2,3) ops R by auto
    qed
  qed
qed

text \<open>Claim C7 at a deletion that fails, at a request without \<^verbatim>\<open>uploadId\<close>, and at a
  deletion that succeeds.\<close>

theorem add_upload_deletion_witness:
  "upload_deletes (issued_by small_world (snd (add upload_delete_fails ''u1''
      \<lparr>content = JStr ''hello'', image = JUndefined, uploadId = JNum 3\<rparr> small_world))) =
     [JNum 3] \<and>
   faults upload_delete_fails (UploadDelete (JNum 3)) \<and>
   fst (add upload_delete_fails ''u1''
      \<lparr>content = JStr ''hello'', image = JUndefined, uploadId = JNum 3\<rparr> small_world) =
     HandleError StoreFailure \<and>
   uuidv4 upload_delete_fails \<in> thread_id ` set (threads (db (snd (add upload_delete_fails ''u1''
      \<lparr>content = JStr ''hello'', image = JUndefined, uploadId = JNum 3\<rparr> small_world)))) \<and>
   \<not> truthy JUndefined \<and>
   upload_deletes (issued_by small_world (snd (add calm ''u1''
      \<lparr>content = JStr ''hello'', image = JUndefined, uploadId = JUndefined\<rparr> small_world))) = [] \<and>
   \<not> faults calm (UploadDelete (JNum 3)) \<and>
   fst (add calm ''u1''
      \<lparr>content = JStr ''hello'', image = JUndefined, uploadId = JNum 3\<rparr> small_world) =
     success 201 ''Add Thread Success'' NoData \<and>
   JNum 3 \<notin> upload_id ` set (uploads (db (snd (add calm ''u1''
      \<lparr>content = JStr ''hello'', image = JUndefined, uploadId = JNum 3\<rparr> small_world))))"
proof -
  let ?B = "\<lparr>content = JStr ''hello'', image = JUndefined, uploadId = JNum 3\<rparr>"
  let ?A = "\<lparr>content = JStr ''hello'', image = JUndefined, uploadId = JUndefined\<rparr>"
  have u: "uploadId ?B = JNum 3" "uploadId ?A = JUndefined" by simp_all
  have p1: "upload_deletes (issued_by small_world (snd (add upload_delete_fails ''u1'' ?B
      small_world))) = [JNum 3]"
    by code_simp
  have f1: "faults upload_delete_fails (UploadDelete (JNum 3))"
    by (simp add: upload_delete_fails_def)
  have c1: "fst (add upload_delete_fails ''u1'' ?B small_world) = HandleError StoreFailure \<and>
      uuidv4 upload_delete_fails \<in> thread_id ` set (threads (db (snd
        (add upload_delete_fails ''u1'' ?B small_world))))"
    using add_upload_deletion [of small_world upload_delete_fails "''u1''" ?B] p1 f1
    unfolding u by blast
  have p2: "\<not> truthy JUndefined" by simp
  have c2: "upload_deletes (issued_by small_world (snd (add calm ''u1'' ?A small_world))) = []"
    using add_upload_deletion [of small_world calm "''u1''" ?A] p2
    unfolding u by blast
  have p3: "upload_deletes (issued_by small_world (snd (add calm ''u1'' ?B small_world))) =
      [JNum 3]"
    by code_simp
  have f3: "\<not> faults calm (UploadDelete (JNum 3))"
    by (simp add: calm_def)
  have c3: "fst (add calm ''u1'' ?B small_world) = success 201 ''Add Thread Success'' NoData \<and>
      JNum 3 \<notin> upload_id ` set (uploads (db (snd (add calm ''u1'' ?B small_world))))"
    using add_upload_deletion [of small_world calm "''u1''" ?B] p3 f3
    unfolding u by blast
  from p1 f1 c1 p2 c2 f3 c3 show ?thesis by blast
qed

section \<open>Updating a thread\<close>

lemma distinct_key_eq:
  "distinct (map f xs) \<Longrightarrow> x \<in> set xs \<Longrightarrow> y \<in> set xs \<Longrightarrow> f x = f y \<Longrightarrow> x = y"
  by (meson distinct_map inj_onD)

lemma find_unique:
  assumes "distinct (map f xs)" and "find (\<lambda>x. f x = k) xs = Some x"
    and "y \<in> set xs" and "f y = k"
  shows "y = x"
proof -
  from assms(2) have "x \<in> set xs" "f x = k"
    by (auto simp: find_Some_iff)
  with assms(1,3,4) show ?thesis
    using distinct_key_eq [of f xs y x] by simp
qed

lemma updateOne_run:
  "(\<exists>err. updateOne e threadId body w = (HandleError err, w)) \<or>
   (\<exists>err. updateOne e threadId body w = (HandleError err, issue (ThreadFindOne threadId) w)) \<or>
   (\<exists>found r w2.
      regex_test uuid_regex threadId \<and>
      find (\<lambda>t. thread_id t = threadId) (threads (db w)) = Some found \<and>
      ThreadRepository_save e
        \<lparr>entity_id = thread_id found, entity_content = content body,
         entity_image = thread_image found, entity_user = None\<rparr>
        (issue (ThreadFindOne threadId) w) = (r, w2) \<and>
      updateOne e threadId body w =
        (case r of Inl err \<Rightarrow> HandleError err
         | Inr _ \<Rightarrow> success 200 ''Update One Thread Success'' NoData, w2))"
proof (cases "regex_test uuid_regex threadId")
  case False
  then show ?thesis by (simp add: updateOne_def)
next
  case ok: True
  show ?thesis
  proof (cases "faults e (ThreadFindOne threadId)")
    case True
    then show ?thesis using ok by (simp add: updateOne_def ThreadRepository_findOne_def)
  next
    case nf: False
    show ?thesis
    proof (cases "find (\<lambda>t. thread_id t = threadId) (threads (db w))")
      case None
      then show ?thesis using ok nf by (simp add: updateOne_def ThreadRepository_findOne_def)
    next
      case (Some found)
      let ?ent = "\<lparr>entity_id = thread_id found, entity_content = content body,
         entity_image = thread_image found, entity_user = None\<rparr>"
      obtain r w2 where s:
        "ThreadRepository_save e ?ent (issue (ThreadFindOne threadId) w) = (r, w2)"
        by (cases "ThreadRepository_save e ?ent (issue (ThreadFindOne threadId) w)")
      then show ?thesis using ok nf Some
        by (cases r) (simp_all add: updateOne_def ThreadRepository_findOne_def)
    qed
  qed
qed

lemma save_threads:
  "ThreadRepository_save e ent w1 = (r, w2) \<Longrightarrow>
     users (db w2) = users (db w1) \<and> uploads (db w2) = uploads (db w1) \<and>
     (threads (db w2) = threads (db w1) \<or>
      (r = Inr () \<and> list_ex (\<lambda>t. thread_id t = entity_id ent) (threads (db w1)) \<and>
       threads (db w2) =
         map (\<lambda>t. if thread_id t = entity_id ent then update_row e ent t else t) (threads (db w1))) \<or>
      (r = Inr () \<and> \<not> list_ex (\<lambda>t. thread_id t = entity_id ent) (threads (db w1)) \<and>
       (\<exists>u. entity_user ent = Some u \<and>
            threads (db w2) = threads (db w1) @ [insert_row e ent u])))"
  by (auto simp: ThreadRepository_save_def issue_def Let_def split: if_splits option.splits)

lemma updateOne_success:
  assumes pk: "distinct (map thread_id (threads (db w)))"
    and ok: "fst (updateOne e threadId body w) = success 200 ''Update One Thread Success'' NoData"
  shows "threads (db (snd (updateOne e threadId body w))) =
           map (\<lambda>t. if thread_id t = threadId
                     then t\<lparr>thread_content :=
                            (if content body = JUndefined then thread_content t else content body),
                           thread_updated_at := restamp e t\<rparr>
                     else t)
             (threads (db w)) \<and>
         users (db (snd (updateOne e threadId body w))) = users (db w) \<and>
         uploads (db (snd (updateOne e threadId body w))) = uploads (db w)"
proof -
  from updateOne_run [of e threadId body w] ok obtain found r w2 where
    f: "find (\<lambda>t. thread_id t = threadId) (threads (db w)) = Some found"
    and s: "ThreadRepository_save e
        \<lparr>entity_id = thread_id found, entity_content = content body,
         entity_image = thread_image found, entity_user = None\<rparr>
        (issue (ThreadFindOne threadId) w) = (r, w2)"
    and u: "updateOne e threadId body w =
        (case r of Inl err \<Rightarrow> HandleError err
         | Inr _ \<Rightarrow> success 200 ''Update One Thread Success'' NoData, w2)"
    by auto
  let ?ent = "\<lparr>entity_id = thread_id found, entity_content = content body,
         entity_image = thread_image found, entity_user = None\<rparr>"
  from f have fid: "thread_id found = threadId" and fin: "found \<in> set (threads (db w))"
    by (auto simp: find_Some_iff)
  have r: "r = Inr ()" using ok u by (cases r) simp_all
  have ex: "list_ex (\<lambda>t. thread_id t = entity_id ?ent) (threads (db w))"
    using fin fid by (auto simp: list_ex_iff)
  have db1: "db (issue (ThreadFindOne threadId) w) = db w" by (simp add: issue_def)
  have th: "threads (db w2) =
      map (\<lambda>t. if thread_id t = threadId then update_row e ?ent t else t) (threads (db w))"
    and rest: "users (db w2) = users (db w)" "uploads (db w2) = uploads (db w)"
    using s r ex
    by (auto simp: ThreadRepository_save_def issue_def Let_def fid split: if_splits)
  have row: "update_row e ?ent t =
      t\<lparr>thread_content := (if content body = JUndefined then thread_content t else content body),
        thread_updated_at := restamp e t\<rparr>"
    if "t \<in> set (threads (db w))" "thread_id t = threadId" for t
  proof -
    from find_unique [OF pk f that] have "t = found" .
    then show ?thesis by (simp add: update_row_def)
  qed
  have "threads (db w2) =
      map (\<lambda>t. if thread_id t = threadId
                then t\<lparr>thread_content :=
                       (if content body = JUndefined then thread_content t else content body),
                      thread_updated_at := restamp e t\<rparr>
                else t) (threads (db w))"
    unfolding th by (rule map_cong) (auto simp: row)
  then show ?thesis using rest by (simp add: u)
qed

lemma same_owners_if:
  assumes pk: "distinct (map thread_id (threads (db w)))"
    and step: "\<And>t'. t' \<in> set (threads (db w')) \<Longrightarrow>
        thread_id t' \<notin> thread_id ` set (threads (db w)) \<or>
        (\<exists>t \<in> set (threads (db w)). thread_id t = thread_id t' \<and> thread_user t = thread_user t')"
  shows "same_owners w w'"
  unfolding same_owners_def
proof (intro ballI impI)
  fix t t'
  assume t: "t \<in> set (threads (db w))" and t': "t' \<in> set (threads (db w'))"
    and eq: "thread_id t' = thread_id t"
  from step [OF t'] t eq obtain t0 where
    t0: "t0 \<in> set (threads (db w))" "thread_id t0 = thread_id t'" "thread_user t0 = thread_user t'"
    by force
  from distinct_key_eq [OF pk t0(1) t] t0(2) eq have "t0 = t" by simp
  with t0(3) show "thread_user t' = thread_user t" by simp
qed

lemma same_owners_same_threads:
  assumes "distinct (map thread_id (threads (db w)))"
    and "threads (db w') = threads (db w)"
  shows "same_owners w w'"
  using assms(1) by (rule same_owners_if) (auto simp: assms(2))

lemma findOne_db: "db (snd (findOne e threadId w)) = db w"
  by (auto simp: findOne_def ThreadRepository_findOne_def issue_def Let_def
        split: option.splits)

lemma findAll_db: "db (snd (findAll e q w)) = db w"
  by (auto simp: findAll_def ThreadRepository_find_def issue_def Let_def
        split: number.splits)

lemma deleteOne_threads:
  "set (threads (db (snd (deleteOne e threadId w)))) \<subseteq> set (threads (db w))"
  by (auto simp: deleteOne_def ThreadRepository_findOne_def ThreadRepository_delete_def
        issue_def Let_def split: option.splits)

lemma updateOne_threads:
  "threads (db (snd (updateOne e threadId body w))) = threads (db w) \<or>
   (\<exists>ent. entity_user ent = None \<and>
      threads (db (snd (updateOne e threadId body w))) =
        map (\<lambda>t. if thread_id t = entity_id ent then update_row e ent t else t) (threads (db w)))"
proof -
  have db1: "db (issue (ThreadFindOne threadId) w) = db w" by (simp add: issue_def)
  from updateOne_run [of e threadId body w] show ?thesis
  proof (elim disjE exE conjE)
    fix found r w2
    let ?ent = "\<lparr>entity_id = thread_id found, entity_content = content body,
         entity_image = thread_image found, entity_user = None\<rparr>"
    assume s: "ThreadRepository_save e ?ent (issue (ThreadFindOne threadId) w) = (r, w2)"
      and u: "updateOne e threadId body w =
        (case r of Inl err \<Rightarrow> HandleError err
         | Inr _ \<Rightarrow> success 200 ''Update One Thread Success'' NoData, w2)"
    have w2: "snd (updateOne e threadId body w) = w2" by (simp add: u)
    from save_threads [OF s]
    have "threads (db w2) = threads (db w) \<or>
        threads (db w2) =
          map (\<lambda>t. if thread_id t = entity_id ?ent then update_row e ?ent t else t) (threads (db w))"
      unfolding db1 by auto
    then show ?thesis
    proof
      assume "threads (db w2) = threads (db w)"
      then show ?thesis by (simp add: w2)
    next
      assume "threads (db w2) =
          map (\<lambda>t. if thread_id t = entity_id ?ent then update_row e ?ent t else t) (threads (db w))"
      then have "entity_user ?ent = None \<and>
          threads (db (snd (updateOne e threadId body w))) =
            map (\<lambda>t. if thread_id t = entity_id ?ent then update_row e ?ent t else t)
              (threads (db w))"
        by (simp add: w2)
      then show ?thesis by blast
    qed
  qed (auto simp: issue_def)
qed

lemma add_threads:
  assumes "uuidv4 e \<notin> thread_id ` set (threads (db w))"
  shows "threads (db (snd (add e authId body w))) = threads (db w) \<or>
         (\<exists>u. threads (db (snd (add e authId body w))) =
                threads (db w) @ [insert_row e (new_thread e body u) u])"
proof -
  have nex: "\<not> list_ex (\<lambda>t. thread_id t = uuidv4 e) (threads (db w))"
    using assms by (simp add: list_ex_image)
  show ?thesis
    using nex
    by (auto simp: add_def UserRepository_findOne_def ThreadRepository_save_def
          UploadRepository_delete_def issue_def Let_def new_thread_def
          split: option.splits if_splits)
qed

lemma lower_hex_idem: "lower_hex (lower_hex c) = lower_hex c"
  by simp

lemma uuid_value_idem: "uuid_value (uuid_value s) = uuid_value s"
  by (simp add: uuid_value_def lower_hex_idem del: lower_hex.simps)

lemma lookup_by_uuid_value:
  assumes "uuid_value threadId = threadId"
    and "list_all (\<lambda>t. uuid_value (thread_id t) = thread_id t) ts"
  shows "find (\<lambda>t. uuid_value (thread_id t) = uuid_value threadId) ts =
         find (\<lambda>t. thread_id t = threadId) ts"
  using assms(2) by (induction ts) (simp_all add: assms(1))

text \<open>
  Claim C8. Let the Thread keys be unique in the store and, like \<open>threadId\<close>, in their
  lowercase form, so that comparing them as written is comparing uuid values. Then an
  \<^verbatim>\<open>updateOne\<close> that answers with status 200 leaves the Thread table as it was except
  that the row with \<open>threadId\<close> has the \<^verbatim>\<open>content\<close> of the request (its own when the
  request carries none) and the update timestamp the store gives it: its identifier,
  owning user, image, creation time, likes and replies, every other row, and the User
  and Upload tables are unchanged. And no handler reassigns an owner: after
  \<^verbatim>\<open>updateOne\<close>, \<^verbatim>\<open>deleteOne\<close>, \<^verbatim>\<open>findOne\<close>, \<^verbatim>\<open>findAll\<close>, and \<^verbatim>\<open>add\<close> with an
  identifier from \<^verbatim>\<open>uuidv4()\<close> whose value is not yet stored, a Thread that was in the
  store and still is has the owning user it had.
\<close>

theorem updateOne_content_only:
  assumes pk: "distinct (map thread_id (threads (db w)))"
    and lc: "uuid_value threadId = threadId"
    and lcs: "list_all (\<lambda>t. uuid_value (thread_id t) = thread_id t) (threads (db w))"
  shows "(fst (updateOne e threadId body w) = success 200 ''Update One Thread Success'' NoData \<longrightarrow>
            threads (db (snd (updateOne e threadId body w))) =
              map (\<lambda>t. if thread_id t = threadId
                        then t\<lparr>thread_content :=
                               (if content body = JUndefined then thread_content t
                                else content body),
                              thread_updated_at := restamp e t\<rparr>
                        else t)
                (threads (db w)) \<and>
            users (db (snd (updateOne e threadId body w))) = users (db w) \<and>
            uploads (db (snd (updateOne e threadId body w))) = uploads (db w)) \<and>
         (regex_test uuid_regex threadId \<and> threadId \<in> thread_id ` set (threads (db w)) \<and>
          \<not> faults e (ThreadFindOne threadId) \<and>
          (\<forall>ent. \<not> faults e (ThreadSave ent)) \<longrightarrow>
            fst (updateOne e threadId body w) =
              success 200 ''Update One Thread Success'' NoData) \<and>
         find (\<lambda>t. uuid_value (thread_id t) = uuid_value threadId) (threads (db w)) =
           find (\<lambda>t. thread_id t = threadId) (threads (db w)) \<and>
         same_owners w (snd (updateOne e threadId body w)) \<and>
         same_owners w (snd (deleteOne e threadId w)) \<and>
         same_owners w (snd (findOne e threadId w)) \<and>
         same_owners w (snd (findAll e q w)) \<and>
         (uuid_value (uuidv4 e) \<notin> (\<lambda>t. uuid_value (thread_id t)) ` set (threads (db w)) \<longrightarrow>
            same_owners w (snd (add e authId body w)))"
proof -
  have upd: "same_owners w (snd (updateOne e threadId body w))"
    using pk
  proof (rule same_owners_if)
    fix t'
    assume t': "t' \<in> set (threads (db (snd (updateOne e threadId body w))))"
    from updateOne_threads [of e threadId body w]
    have "\<exists>t \<in> set (threads (db w)). thread_id t = thread_id t' \<and> thread_user t = thread_user t'"
    proof (elim disjE exE conjE)
      assume "threads (db (snd (updateOne e threadId body w))) = threads (db w)"
      with t' show ?thesis by auto
    next
      fix ent
      assume n: "entity_user ent = None"
        and m: "threads (db (snd (updateOne e threadId body w))) =
          map (\<lambda>t. if thread_id t = entity_id ent then update_row e ent t else t) (threads (db w))"
      from t' [unfolded m] obtain t where
        t: "t \<in> set (threads (db w))"
        "t' = (if thread_id t = entity_id ent then update_row e ent t else t)"
        by auto
      then have "thread_id t = thread_id t' \<and> thread_user t = thread_user t'"
        by (simp add: update_row_def n)
      with t(1) show ?thesis by blast
    qed
    then show "thread_id t' \<notin> thread_id ` set (threads (db w)) \<or>
        (\<exists>t \<in> set (threads (db w)). thread_id t = thread_id t' \<and> thread_user t = thread_user t')"
      by simp
  qed
  have del: "same_owners w (snd (deleteOne e threadId w))"
    using pk
  proof (rule same_owners_if)
    fix t'
    assume "t' \<in> set (threads (db (snd (deleteOne e threadId w))))"
    with deleteOne_threads [of e threadId w] have "t' \<in> set (threads (db w))" by blast
    then show "thread_id t' \<notin> thread_id ` set (threads (db w)) \<or>
        (\<exists>t \<in> set (threads (db w)). thread_id t = thread_id t' \<and> thread_user t = thread_user t')"
      by blast
  qed
  have one: "same_owners w (snd (findOne e threadId w))"
    using pk by (rule same_owners_same_threads) (simp add: findOne_db)
  have all: "same_owners w (snd (findAll e q w))"
    using pk by (rule same_owners_same_threads) (simp add: findAll_db)
  have add: "same_owners w (snd (add e authId body w))"
    if vfresh: "uuid_value (uuidv4 e) \<notin> (\<lambda>t. uuid_value (thread_id t)) ` set (threads (db w))"
    using pk
  proof (rule same_owners_if)
    fix t'
    assume t': "t' \<in> set (threads (db (snd (add e authId body w))))"
    from vfresh have fresh: "uuidv4 e \<notin> thread_id ` set (threads (db w))"
      by (rule uuid_value_absent)
    from add_threads [OF fresh, of authId body]
    show "thread_id t' \<notin> thread_id ` set (threads (db w)) \<or>
        (\<exists>t \<in> set (threads (db w)). thread_id t = thread_id t' \<and> thread_user t = thread_user t')"
    proof (elim disjE exE)
      assume "threads (db (snd (add e authId body w))) = threads (db w)"
      with t' show ?thesis by auto
    next
      fix u
      assume "threads (db (snd (add e authId body w))) =
          threads (db w) @ [insert_row e (new_thread e body u) u]"
      with t' have "t' \<in> set (threads (db w)) \<or> t' = insert_row e (new_thread e body u) u"
        by auto
      then show ?thesis
      proof
        assume "t' \<in> set (threads (db w))"
        then show ?thesis by blast
      next
        assume "t' = insert_row e (new_thread e body u) u"
        then have "thread_id t' = uuidv4 e" by (simp add: insert_row_def new_thread_def)
        with fresh show ?thesis by simp
      qed
    qed
  qed
  have succ: "fst (updateOne e threadId body w) =
      success 200 ''Update One Thread Success'' NoData"
    if "regex_test uuid_regex threadId" "threadId \<in> thread_id ` set (threads (db w))"
      "\<not> faults e (ThreadFindOne threadId)" "\<forall>ent. \<not> faults e (ThreadSave ent)"
  proof -
    from find_Some_image [OF that(2)] obtain t where
      t: "find (\<lambda>t. thread_id t = threadId) (threads (db w)) = Some t" "thread_id t = threadId"
      by blast
    have ex: "list_ex (\<lambda>x. thread_id x = threadId) (threads (db w))"
      using that(2) by (simp add: list_ex_image)
    show ?thesis
      using that(1,3,4) t ex
      by (simp add: updateOne_def ThreadRepository_findOne_def ThreadRepository_save_def
            issue_def Let_def)
  qed
  note lk = lookup_by_uuid_value [OF lc lcs]
  from updateOne_success [OF pk] upd del one all add succ lk show ?thesis by blast
qed

text \<open>Claim C8 at an update of the first thread of the two-thread store.\<close>

theorem updateOne_content_only_witness:
  "distinct (map thread_id (threads (db two_threads))) \<and>
   uuid_value ''11111111-1111-4111-8111-111111111111'' = ''11111111-1111-4111-8111-111111111111'' \<and>
   list_all (\<lambda>t. uuid_value (thread_id t) = thread_id t) (threads (db two_threads)) \<and>
   fst (updateOne calm ''11111111-1111-4111-8111-111111111111''
         \<lparr>content = JStr ''edited'', image = JStr ''z.png'', uploadId = JUndefined\<rparr> two_threads) =
     success 200 ''Update One Thread Success'' NoData \<and>
   threads (db (snd (updateOne calm ''11111111-1111-4111-8111-111111111111''
         \<lparr>content = JStr ''edited'', image = JStr ''z.png'', uploadId = JUndefined\<rparr> two_threads))) =
     [first_thread\<lparr>thread_content := JStr ''edited'', thread_updated_at := 5\<rparr>, second_thread] \<and>
   uuid_value (uuidv4 calm) \<notin> (\<lambda>t. uuid_value (thread_id t)) ` set (threads (db two_threads)) \<and>
   same_owners two_threads (snd (add calm ''u1''
         \<lparr>content = JStr ''edited'', image = JStr ''z.png'', uploadId = JUndefined\<rparr> two_threads))"
proof -
  let ?B = "\<lparr>content = JStr ''edited'', image = JStr ''z.png'', uploadId = JUndefined\<rparr>"
  let ?i = "''11111111-1111-4111-8111-111111111111''"
  have pk: "distinct (map thread_id (threads (db two_threads)))"
    by (simp add: two_threads_def first_thread_def second_thread_def)
  have lc: "uuid_value ?i = ?i" by code_simp
  have lcs: "list_all (\<lambda>t. uuid_value (thread_id t) = thread_id t) (threads (db two_threads))"
    by code_simp
  have rg: "regex_test uuid_regex ?i" by code_simp
  have mem: "?i \<in> thread_id ` set (threads (db two_threads))"
    by (simp add: two_threads_def first_thread_def)
  have nf: "\<not> faults calm (ThreadFindOne ?i)" "\<forall>ent. \<not> faults calm (ThreadSave ent)"
    by (simp_all add: calm_def)
  have fresh: "uuid_value (uuidv4 calm) \<notin>
      (\<lambda>t. uuid_value (thread_id t)) ` set (threads (db two_threads))"
    by code_simp
  have rows: "map (\<lambda>t. if thread_id t = ?i
                        then t\<lparr>thread_content :=
                               (if content ?B = JUndefined then thread_content t
                                else content ?B),
                              thread_updated_at := restamp calm t\<rparr>
                        else t)
                (threads (db two_threads)) =
      [first_thread\<lparr>thread_content := JStr ''edited'', thread_updated_at := 5\<rparr>, second_thread]"
    by (simp add: two_threads_def first_thread_def second_thread_def calm_def)
  note inst = updateOne_content_only [OF pk lc lcs, of calm ?B QUndefined "''u1''"]
  from inst rg mem nf
  have ok: "fst (updateOne calm ?i ?B two_threads) =
      success 200 ''Update One Thread Success'' NoData"
    by blast
  from inst ok fresh
  have "threads (db (snd (updateOne calm ?i ?B two_threads))) =
      map (\<lambda>t. if thread_id t = ?i
                then t\<lparr>thread_content :=
                       (if content ?B = JUndefined then thread_content t else content ?B),
                      thread_updated_at := restamp calm t\<rparr>
                else t)
        (threads (db two_threads))"
    and "same_owners two_threads (snd (add calm ''u1'' ?B two_threads))"
    by blast+
  with rows pk lc lcs ok fresh show ?thesis by simp
qed

end
